theory Spec2Isabelle
  imports Complex_Main "HOL-Library.Monad_Syntax"
begin

section \<open>JavaScript values as the frontend handles them\<close>

text \<open>
  The React frontend receives JSON from the backend and never checks its shape, so the
  data is modelled untyped, as JavaScript values. Numbers are idealised as rationals
  (no rounding), with NaN apart. An object is an association list read by key.
\<close>

datatype jsval =
    JUndefined
  | JNull
  | JBool bool
  | JNum rat
  | JNaN
  | JStr string
  | JArr "jsval list"
  | JObj "(string \<times> jsval) list"

text \<open>Truthiness, as \<^verbatim>\<open>!x\<close>, \<^verbatim>\<open>x || y\<close> and \<^verbatim>\<open>x && y\<close> test it.\<close>

fun truthy :: "jsval \<Rightarrow> bool" where
  "truthy JUndefined = False"
| "truthy JNull = False"
| "truthy (JBool b) = b"
| "truthy (JNum q) = (q \<noteq> 0)"
| "truthy JNaN = False"
| "truthy (JStr s) = (s \<noteq> [])"
| "truthy (JArr xs) = True"
| "truthy (JObj kvs) = True"

text \<open>\<^verbatim>\<open>a || b\<close>: the left operand when it is truthy, else the right one.\<close>

definition js_or :: "jsval \<Rightarrow> jsval \<Rightarrow> jsval" where
  "js_or a b = (if truthy a then a else b)"

text \<open>
  Property read \<^verbatim>\<open>v.p\<close>. Reading a property of \<^verbatim>\<open>undefined\<close> or \<^verbatim>\<open>null\<close> throws a
  TypeError, which is the value \<open>None\<close>. A key an object does not have reads as
  \<^verbatim>\<open>undefined\<close>. Of the built-in properties only \<^verbatim>\<open>length\<close> is read by the code.
\<close>

fun get :: "jsval \<Rightarrow> string \<Rightarrow> jsval option" where
  "get JUndefined p = None"
| "get JNull p = None"
| "get (JObj kvs) p = Some (case map_of kvs p of None \<Rightarrow> JUndefined | Some v \<Rightarrow> v)"
| "get (JArr xs) p = Some (if p = ''length'' then JNum (of_nat (length xs)) else JUndefined)"
| "get (JStr s) p = Some (if p = ''length'' then JNum (of_nat (length s)) else JUndefined)"
| "get v p = Some JUndefined"

text \<open>Optional chaining \<^verbatim>\<open>v?.p\<close>: \<^verbatim>\<open>undefined\<close> when \<open>v\<close> is nullish, and never a throw.\<close>

definition get_opt :: "jsval \<Rightarrow> string \<Rightarrow> jsval" where
  "get_opt v p = (case get v p of None \<Rightarrow> JUndefined | Some x \<Rightarrow> x)"

text \<open>
  Spread into an array literal, \<^verbatim>\<open>[...v]\<close>: the elements of an array, the characters of
  a string, and a TypeError for every value that is not iterable.
\<close>

fun spread :: "jsval \<Rightarrow> jsval list option" where
  "spread (JArr xs) = Some xs"
| "spread (JStr s) = Some (map (\<lambda>c. JStr [c]) s)"
| "spread v = None"

section \<open>App.js: the requests of the analysis flow\<close>

datatype request =
    GET string
  | POST string jsval

text \<open>
  The body of the request \<^verbatim>\<open>runAnalysis\<close> posts to \<^verbatim>\<open>/analyze\<close>:
  \<^verbatim>\<open>{symbols: selectedSymbols, lookback_days: config?.lookback_days || 60}\<close>.
\<close>

definition lookback_days :: "jsval \<Rightarrow> jsval" where
  "lookback_days config = js_or (get_opt config ''lookback_days'') (JNum 60)"

definition analyze_body :: "jsval \<Rightarrow> string list \<Rightarrow> jsval" where
  "analyze_body config selectedSymbols =
     JObj [(''symbols'', JArr (map JStr selectedSymbols)),
           (''lookback_days'', lookback_days config)]"

section \<open>TradingPanel.js\<close>

text \<open>The six \<^verbatim>\<open>useState\<close> cells of the component, with their initial values.\<close>

record panel_state =
  selectedStock :: jsval
  orderType :: string
  limitPrice :: string
  customQuantity :: string
  executing :: bool
  tradeResult :: jsval

definition panel_init :: panel_state where
  "panel_init =
     \<lparr>selectedStock = JNull, orderType = ''market'', limitPrice = [],
      customQuantity = [], executing = False, tradeResult = JNull\<rparr>"

text \<open>
  \<^verbatim>\<open>const { buy_recommendations, sell_recommendations } = results.analysis;\<close>
  \<^verbatim>\<open>const tradableRecommendations = [...buy_recommendations, ...sell_recommendations];\<close>
\<close>

definition tradableRecommendations :: "jsval \<Rightarrow> jsval list option" where
  "tradableRecommendations analysis =
     do {
       buy_recommendations \<leftarrow> get analysis ''buy_recommendations'';
       sell_recommendations \<leftarrow> get analysis ''sell_recommendations'';
       b \<leftarrow> spread buy_recommendations;
       s \<leftarrow> spread sell_recommendations;
       Some (b @ s)
     }"

text \<open>
  The built-in functions \<^verbatim>\<open>parseInt\<close> and \<^verbatim>\<open>parseFloat\<close>, and the conversion to a number
  that a comparison applies to a string, an array or an object, are parameters of the
  model: every property below holds whatever they return.
\<close>

record builtins =
  parseInt :: "jsval \<Rightarrow> jsval"
  parseFloat :: "jsval \<Rightarrow> jsval"
  toNumber :: "jsval \<Rightarrow> jsval"

text \<open>\<^verbatim>\<open>v > 0\<close>: both sides become numbers, and a comparison with NaN is false.\<close>

definition to_number :: "builtins \<Rightarrow> jsval \<Rightarrow> jsval" where
  "to_number B v =
     (case v of
        JUndefined \<Rightarrow> JNaN
      | JNull \<Rightarrow> JNum 0
      | JBool b \<Rightarrow> JNum (if b then 1 else 0)
      | JNum q \<Rightarrow> JNum q
      | JNaN \<Rightarrow> JNaN
      | _ \<Rightarrow> toNumber B v)"

definition gt_zero :: "builtins \<Rightarrow> jsval \<Rightarrow> bool" where
  "gt_zero B v = (case to_number B v of JNum q \<Rightarrow> 0 < q | _ \<Rightarrow> False)"

text \<open>
  The object \<^verbatim>\<open>handleExecute\<close> builds, with
  \<^verbatim>\<open>quantity = customQuantity || selectedStock.position_size\<close>. A spread of \<^verbatim>\<open>false\<close> adds
  no key, so \<^verbatim>\<open>limit_price\<close> is a key of the object only for the order type \<^verbatim>\<open>'limit'\<close>.
\<close>

definition order_quantity :: "panel_state \<Rightarrow> jsval option" where
  "order_quantity p =
     (if truthy (JStr (customQuantity p)) then Some (JStr (customQuantity p))
      else get (selectedStock p) ''position_size'')"

definition tradeDetails :: "builtins \<Rightarrow> panel_state \<Rightarrow> jsval option" where
  "tradeDetails B p =
     do {
       q \<leftarrow> order_quantity p;
       symbol \<leftarrow> get (selectedStock p) ''symbol'';
       action \<leftarrow> get (selectedStock p) ''action'';
       Some (JObj ([(''symbol'', symbol),
                    (''action'', action),
                    (''quantity'', parseInt B q),
                    (''order_type'', JStr (orderType p))]
                   @ (if orderType p = ''limit''
                      then [(''limit_price'', parseFloat B (JStr (limitPrice p)))]
                      else [])))
     }"

text \<open>
  What the component shows. It returns \<^verbatim>\<open>null\<close> without results, a notice when there is
  nothing to trade, and otherwise the selector with one option for each tradable
  recommendation and, once a stock is selected, its details with the Execute button.
  A render that throws is \<open>None\<close>: an option reads \<^verbatim>\<open>rec.symbol\<close>, the details call
  \<^verbatim>\<open>selectedStock.action.toLowerCase()\<close>.
\<close>

record trade_controls =
  stock :: jsval
  execute_disabled :: bool
  cancel_disabled :: bool

datatype panel_view =
    RendersNothing
  | NoTrades
  | Selector "jsval list" "trade_controls option"

definition execute_button_disabled :: "panel_state \<Rightarrow> bool" where
  "execute_button_disabled p =
     (executing p \<or> (orderType p = ''limit'' \<and> \<not> truthy (JStr (limitPrice p))))"

definition is_string :: "jsval \<Rightarrow> bool" where
  "is_string v = (case v of JStr s \<Rightarrow> True | _ \<Rightarrow> False)"

definition render_controls :: "panel_state \<Rightarrow> trade_controls option option" where
  "render_controls p =
     (if truthy (selectedStock p)
      then do {
        action \<leftarrow> get (selectedStock p) ''action'';
        if is_string action
        then Some (Some \<lparr>stock = selectedStock p,
                          execute_disabled = execute_button_disabled p,
                          cancel_disabled = executing p\<rparr>)
        else None
      }
      else Some None)"

definition TradingPanel :: "jsval \<Rightarrow> panel_state \<Rightarrow> panel_view option" where
  "TradingPanel results p =
     (if \<not> truthy results then Some RendersNothing
      else if \<not> truthy (get_opt results ''analysis'') then Some RendersNothing
      else do {
        tradable \<leftarrow> tradableRecommendations (get_opt results ''analysis'');
        if tradable = [] then Some NoTrades
        else if list_all (\<lambda>rec. get rec ''symbol'' \<noteq> None) tradable
        then do { c \<leftarrow> render_controls p; Some (Selector tradable c) }
        else None
      })"

text \<open>
  The selector's \<^verbatim>\<open>onChange\<close>:
  \<^verbatim>\<open>tradableRecommendations.find(r => r.symbol === e.target.value)\<close>, which is
  \<^verbatim>\<open>undefined\<close> when no element matches.
\<close>

fun find_symbol :: "jsval list \<Rightarrow> string \<Rightarrow> jsval option" where
  "find_symbol [] v = Some JUndefined"
| "find_symbol (r # rs) v =
     do {
       symbol \<leftarrow> get r ''symbol'';
       if symbol = JStr v then Some r else find_symbol rs v
     }"

definition select_onChange :: "jsval list \<Rightarrow> string \<Rightarrow> panel_state \<Rightarrow> panel_state option" where
  "select_onChange tradable v p =
     do {
       stock \<leftarrow> find_symbol tradable v;
       Some (p\<lparr>selectedStock := stock, customQuantity := [], limitPrice := [],
               tradeResult := JNull\<rparr>)
     }"

definition cancel_onClick :: "panel_state \<Rightarrow> panel_state" where
  "cancel_onClick p = p\<lparr>selectedStock := JNull, tradeResult := JNull\<rparr>"

section \<open>AnalysisResults.js\<close>

text \<open>
  The component function is followed as JavaScript evaluates it, and a throw in it is
  \<open>None\<close>. The result is described by the values it shows, before they are formatted;
  what React does with the returned elements is outside the model.
\<close>

text \<open>
  \<^verbatim>\<open>a === b\<close>. Two objects or two arrays are compared by identity, which the model
  has not: it compares them by their contents.
\<close>

definition strict_eq :: "jsval \<Rightarrow> jsval \<Rightarrow> bool" where
  "strict_eq a b = (a = b \<and> a \<noteq> JNaN)"

text \<open>
  \<^verbatim>\<open>v.map(f)\<close> goes through the elements of an array; for any other value of the model
  \<^verbatim>\<open>v.map\<close> is not a function and the call throws.
\<close>

fun array_elements :: "jsval \<Rightarrow> jsval list option" where
  "array_elements (JArr xs) = Some xs"
| "array_elements v = None"

definition is_number :: "jsval \<Rightarrow> bool" where
  "is_number v = (case v of JNum q \<Rightarrow> True | JNaN \<Rightarrow> True | _ \<Rightarrow> False)"

definition nullish :: "jsval \<Rightarrow> bool" where
  "nullish v = (case v of JUndefined \<Rightarrow> True | JNull \<Rightarrow> True | _ \<Rightarrow> False)"

text \<open>The lines of an expanded card, each with the values it is built from.\<close>

datatype detail =
    SuggestedQuantity jsval
  | EstimatedValue jsval
  | QuantityToSell jsval
  | RegimeAnalysis jsval jsval
  | WalkForward jsval jsval
  | Reasoning "jsval list"
  | Warnings "jsval list"

text \<open>
  "Position Details": for a BUY the quantity and \<^verbatim>\<open>rec.position_value.toLocaleString()\<close>,
  for a SELL the quantity when \<^verbatim>\<open>rec.position_size > 0\<close>.
\<close>

definition position_details :: "builtins \<Rightarrow> jsval \<Rightarrow> detail list option" where
  "position_details B rec =
     do {
       action \<leftarrow> get rec ''action'';
       buy \<leftarrow> (if strict_eq action (JStr ''BUY'')
               then do {
                 position_size \<leftarrow> get rec ''position_size'';
                 position_value \<leftarrow> get rec ''position_value'';
                 if nullish position_value then None
                 else Some [SuggestedQuantity position_size, EstimatedValue position_value]
               }
               else Some []);
       sell \<leftarrow> (if strict_eq action (JStr ''SELL'')
                then do {
                  position_size \<leftarrow> get rec ''position_size'';
                  Some (if gt_zero B position_size then [QuantityToSell position_size] else [])
                }
                else Some []);
       Some (buy @ sell)
     }"

text \<open>
  "Analysis Breakdown": the regime part is read from the key \<^verbatim>\<open>regime_switching\<close> of
  \<^verbatim>\<open>rec.analysis_breakdown\<close> and the backtest part from the key \<^verbatim>\<open>walk_forward\<close>, each
  shown when it is truthy. \<^verbatim>\<open>sharpe_ratio.toFixed(2)\<close> throws unless the value is a number.
\<close>

definition analysis_breakdown_items :: "jsval \<Rightarrow> detail list option" where
  "analysis_breakdown_items rec =
     do {
       analysis_breakdown \<leftarrow> get rec ''analysis_breakdown'';
       if truthy analysis_breakdown
       then do {
         regime_switching \<leftarrow> get analysis_breakdown ''regime_switching'';
         regime_part \<leftarrow>
           (if truthy regime_switching
            then do {
              regime \<leftarrow> get regime_switching ''regime'';
              confidence \<leftarrow> get regime_switching ''confidence'';
              Some [RegimeAnalysis regime confidence]
            }
            else Some []);
         walk_forward \<leftarrow> get analysis_breakdown ''walk_forward'';
         walk_forward_part \<leftarrow>
           (if truthy walk_forward
            then do {
              expected_return \<leftarrow> get walk_forward ''expected_return'';
              sharpe_ratio \<leftarrow> get walk_forward ''sharpe_ratio'';
              if is_number sharpe_ratio then Some [WalkForward expected_return sharpe_ratio]
              else None
            }
            else Some []);
         Some (regime_part @ walk_forward_part)
       }
       else Some []
     }"

text \<open>
  \<^verbatim>\<open>rec.reasoning && rec.reasoning.length > 0 && (... rec.reasoning.map(...))\<close>, and the same
  for \<^verbatim>\<open>rec.warnings\<close>.
\<close>

definition listed :: "builtins \<Rightarrow> jsval \<Rightarrow> string \<Rightarrow> (jsval list \<Rightarrow> detail) \<Rightarrow> detail list option" where
  "listed B rec key line =
     do {
       v \<leftarrow> get rec key;
       if truthy v
       then do {
         n \<leftarrow> get v ''length'';
         if gt_zero B n
         then do { xs \<leftarrow> array_elements v; Some [line xs] }
         else Some []
       }
       else Some []
     }"

text \<open>
  A card: symbol, action and confidence (shown as \<^verbatim>\<open>confidence * 100\<close> percent, as a number
  and as the width of a bar, whatever the value), and the details when the card is the
  expanded one.
\<close>

datatype card = Card jsval jsval jsval "detail list option"

definition renderRecommendationCard :: "builtins \<Rightarrow> jsval \<Rightarrow> jsval \<Rightarrow> card option" where
  "renderRecommendationCard B expandedStock rec =
     do {
       symbol \<leftarrow> get rec ''symbol'';
       let isExpanded = strict_eq expandedStock symbol;
       action \<leftarrow> get rec ''action'';
       confidence \<leftarrow> get rec ''confidence'';
       details \<leftarrow>
         (if isExpanded
          then do {
            position \<leftarrow> position_details B rec;
            breakdown \<leftarrow> analysis_breakdown_items rec;
            reasoning \<leftarrow> listed B rec ''reasoning'' Reasoning;
            warnings \<leftarrow> listed B rec ''warnings'' Warnings;
            Some (Some (position @ breakdown @ reasoning @ warnings))
          }
          else Some None);
       Some (Card symbol action confidence details)
     }"

fun render_all :: "('a \<Rightarrow> 'b option) \<Rightarrow> 'a list \<Rightarrow> 'b list option" where
  "render_all f [] = Some []"
| "render_all f (x # xs) = do { y \<leftarrow> f x; ys \<leftarrow> render_all f xs; Some (y # ys) }"

text \<open>
  The list under the tab "All Recommendations":
  \<^verbatim>\<open>[...buy_recommendations, ...sell_recommendations, ...hold_recommendations]\<close>.
\<close>

definition all_recommendations :: "jsval \<Rightarrow> jsval list option" where
  "all_recommendations analysis =
     do {
       buy_recommendations \<leftarrow> get analysis ''buy_recommendations'';
       sell_recommendations \<leftarrow> get analysis ''sell_recommendations'';
       hold_recommendations \<leftarrow> get analysis ''hold_recommendations'';
       b \<leftarrow> spread buy_recommendations;
       s \<leftarrow> spread sell_recommendations;
       h \<leftarrow> spread hold_recommendations;
       Some (b @ s @ h)
     }"

datatype listing = Cards "card list" | NoResults string

text \<open>
  The tabs "Buy Signals" and "Sell Signals":
  \<^verbatim>\<open>xs.length > 0 ? xs.map(renderRecommendationCard) : <div>No ... signals</div>\<close>.
\<close>

definition signals_tab :: "builtins \<Rightarrow> jsval \<Rightarrow> jsval \<Rightarrow> string \<Rightarrow> listing option" where
  "signals_tab B expandedStock recommendations notice =
     do {
       n \<leftarrow> get recommendations ''length'';
       if gt_zero B n
       then do {
         xs \<leftarrow> array_elements recommendations;
         cards \<leftarrow> render_all (renderRecommendationCard B expandedStock) xs;
         Some (Cards cards)
       }
       else Some (NoResults notice)
     }"

text \<open>
  The whole component, for the state \<open>selectedTab\<close>, \<open>expandedStock\<close>: nothing without
  results; else the three counts of \<^verbatim>\<open>summary\<close>, the two lengths shown in the tab labels,
  and the list of the selected tab.
\<close>

datatype results_view =
    ShowsNothing
  | Results "jsval \<times> jsval \<times> jsval" "jsval \<times> jsval" "listing option"

definition AnalysisResults :: "builtins \<Rightarrow> jsval \<Rightarrow> string \<Rightarrow> jsval \<Rightarrow> results_view option" where
  "AnalysisResults B results selectedTab expandedStock =
     (if \<not> truthy results then Some ShowsNothing
      else if \<not> truthy (get_opt results ''analysis'') then Some ShowsNothing
      else do {
        analysis \<leftarrow> get results ''analysis'';
        buy_recommendations \<leftarrow> get analysis ''buy_recommendations'';
        sell_recommendations \<leftarrow> get analysis ''sell_recommendations'';
        summary \<leftarrow> get analysis ''summary'';
        buy_signals \<leftarrow> get summary ''buy_signals'';
        sell_signals \<leftarrow> get summary ''sell_signals'';
        hold_signals \<leftarrow> get summary ''hold_signals'';
        buy_length \<leftarrow> get buy_recommendations ''length'';
        sell_length \<leftarrow> get sell_recommendations ''length'';
        shown \<leftarrow>
          (if selectedTab = ''recommendations''
           then do {
             recs \<leftarrow> all_recommendations analysis;
             cards \<leftarrow> render_all (renderRecommendationCard B expandedStock) recs;
             Some (Some (Cards cards))
           }
           else if selectedTab = ''buy''
           then map_option Some (signals_tab B expandedStock buy_recommendations ''No buy signals'')
           else if selectedTab = ''sell''
           then map_option Some (signals_tab B expandedStock sell_recommendations ''No sell signals'')
           else Some None);
        Some (Results (buy_signals, sell_signals, hold_signals) (buy_length, sell_length) shown)
      })"

section \<open>App.js: state, handlers and events\<close>

text \<open>
  \<^verbatim>\<open>telegramStatus\<close> is one of the strings \<^verbatim>\<open>''\<close>, \<^verbatim>\<open>'sending'\<close>, \<^verbatim>\<open>'success'\<close> and
  \<^verbatim>\<open>'error:' + message\<close>; the last holds the message as the value it was built from.
\<close>

datatype telegram_status = TgIdle | TgSending | TgSuccess | TgError jsval

text \<open>
  The state cells of \<^verbatim>\<open>App\<close>, the state of the mounted \<^verbatim>\<open>TradingPanel\<close>, and two
  pieces of the runtime: \<open>pending_orders\<close> are the suspended calls of \<^verbatim>\<open>executeTrade\<close>
  that await \<^verbatim>\<open>loadAccountData()\<close>, each holding its \<^verbatim>\<open>response.data.order\<close>, oldest first;
  and \<open>sent\<close> is the log of the calls of \<^verbatim>\<open>axios.get\<close> and \<^verbatim>\<open>axios.post\<close>, in order, with
  the URL after the base. The tab and the expanded card of \<^verbatim>\<open>AnalysisResults\<close> are state
  of that component alone and are arguments of its view.
\<close>

record app_state =
  account :: jsval
  positions :: jsval
  riskSummary :: jsval
  selectedSymbols :: "string list"
  analysisResults :: jsval
  loading :: bool
  error :: jsval
  config :: jsval
  telegramStatus :: telegram_status
  panel :: panel_state
  pending_orders :: "jsval list"
  sent :: "request list"

definition app_init :: app_state where
  "app_init =
     \<lparr>account = JNull, positions = JArr [], riskSummary = JNull,
      selectedSymbols = [''NVDA'', ''MSFT'', ''AMZN'', ''GOOGL'', ''TSLA'', ''UNH'', ''CRWD'',
                         ''V'', ''ASML'', ''PLTR''],
      analysisResults = JNull, loading = False, error = JNull, config = JNull,
      telegramStatus = TgIdle, panel = panel_init, pending_orders = [], sent = []\<rparr>"

text \<open>
  An awaited axios promise settles with \<^verbatim>\<open>response.data\<close> or rejects with an error.
\<close>

datatype reply = Resolved jsval | Rejected jsval

definition axios_get :: "string \<Rightarrow> app_state \<Rightarrow> app_state" where
  "axios_get url s = s\<lparr>sent := sent s @ [GET url]\<rparr>"

definition axios_post :: "string \<Rightarrow> jsval \<Rightarrow> app_state \<Rightarrow> app_state" where
  "axios_post url body s = s\<lparr>sent := sent s @ [POST url body]\<rparr>"

text \<open>
  \<^verbatim>\<open>err.response?.data?.error || fallback\<close> of the catch blocks. A TypeError thrown while
  reading \<^verbatim>\<open>response.data.success\<close> lands in the same catch block and has no
  \<^verbatim>\<open>response\<close>.
\<close>

definition error_of :: "jsval \<Rightarrow> string \<Rightarrow> jsval" where
  "error_of err fallback =
     js_or (get_opt (get_opt (get_opt err ''response'') ''data'') ''error'') (JStr fallback)"

definition thrown_TypeError :: jsval where
  "thrown_TypeError = JObj []"

text \<open>
  The \<^verbatim>\<open>try\<close> part of a handler reads \<^verbatim>\<open>response.data.success\<close> first: \<open>on_reply\<close> runs
  \<open>ok\<close> on the data when that is truthy, \<open>ko\<close> on the data when it is falsy, and
  \<open>caught\<close> on the error when the promise rejected or the read threw.
\<close>

definition on_reply ::
  "reply \<Rightarrow> (jsval \<Rightarrow> 'a) \<Rightarrow> (jsval \<Rightarrow> 'a) \<Rightarrow> (jsval \<Rightarrow> 'a) \<Rightarrow> 'a" where
  "on_reply r ok ko caught =
     (case r of
        Rejected err \<Rightarrow> caught err
      | Resolved d \<Rightarrow>
          (case get d ''success'' of
             None \<Rightarrow> caught thrown_TypeError
           | Some success \<Rightarrow> if truthy success then ok d else ko d))"

definition loadAccountData :: "app_state \<Rightarrow> app_state" where
  "loadAccountData s = axios_get ''/account'' s"

definition loadAccountData_settled :: "reply \<Rightarrow> app_state \<Rightarrow> app_state" where
  "loadAccountData_settled r s =
     on_reply r
       (\<lambda>d. s\<lparr>account := get_opt d ''account'', positions := get_opt d ''positions'',
               riskSummary := get_opt d ''risk_summary''\<rparr>)
       (\<lambda>d. s)
       (\<lambda>err. s\<lparr>error :=
          JStr ''Failed to load account data. Please check your Alpaca API credentials.''\<rparr>)"

definition loadConfig :: "app_state \<Rightarrow> app_state" where
  "loadConfig s = axios_get ''/config'' s"

definition loadConfig_settled :: "reply \<Rightarrow> app_state \<Rightarrow> app_state" where
  "loadConfig_settled r s =
     on_reply r (\<lambda>d. s\<lparr>config := get_opt d ''config''\<rparr>) (\<lambda>d. s) (\<lambda>err. s)"

text \<open>
  \<^verbatim>\<open>runAnalysis\<close> up to its \<^verbatim>\<open>await\<close>. While \<^verbatim>\<open>loading\<close> is true the panel is not rendered,
  so its state is lost: the panel that is mounted afterwards starts from \<open>panel_init\<close>.
\<close>

definition runAnalysis :: "app_state \<Rightarrow> app_state" where
  "runAnalysis s =
     axios_post ''/analyze'' (analyze_body (config s) (selectedSymbols s))
       (s\<lparr>loading := True, error := JNull, telegramStatus := TgIdle, panel := panel_init\<rparr>)"

definition runAnalysis_settled :: "reply \<Rightarrow> app_state \<Rightarrow> app_state" where
  "runAnalysis_settled r s =
     (on_reply r
        (\<lambda>d. s\<lparr>analysisResults := d, account := get_opt d ''account'',
                riskSummary := get_opt d ''risk_summary''\<rparr>)
        (\<lambda>d. s\<lparr>error := js_or (get_opt d ''error'') (JStr ''Analysis failed'')\<rparr>)
        (\<lambda>err. s\<lparr>error := error_of err ''Failed to run analysis. Please try again.''\<rparr>))
     \<lparr>loading := False\<rparr>"

definition sendToTelegram :: "app_state \<Rightarrow> app_state" where
  "sendToTelegram s =
     (if \<not> truthy (analysisResults s)
      then s\<lparr>telegramStatus := TgError (JStr ''No analysis results to send'')\<rparr>
      else axios_post ''/send-telegram''
             (JObj [(''analysis'', get_opt (analysisResults s) ''analysis'')])
             (s\<lparr>telegramStatus := TgSending\<rparr>))"

definition sendToTelegram_settled :: "reply \<Rightarrow> app_state \<Rightarrow> app_state" where
  "sendToTelegram_settled r s =
     on_reply r
       (\<lambda>d. s\<lparr>telegramStatus := TgSuccess\<rparr>)
       (\<lambda>d. s\<lparr>telegramStatus := TgError (get_opt d ''error'')\<rparr>)
       (\<lambda>err. s\<lparr>telegramStatus := TgError (error_of err ''Failed to send to Telegram'')\<rparr>)"

definition executeTrade :: "jsval \<Rightarrow> app_state \<Rightarrow> app_state" where
  "executeTrade details s = axios_post ''/execute-trade'' details s"

text \<open>
  The panel is rendered when \<^verbatim>\<open>!loading && analysisResults\<close>. A state update of a
  component that is not mounted has no effect.
\<close>

definition mounted :: "app_state \<Rightarrow> bool" where
  "mounted s = (\<not> loading s \<and> truthy (analysisResults s))"

definition set_panel :: "(panel_state \<Rightarrow> panel_state) \<Rightarrow> app_state \<Rightarrow> app_state" where
  "set_panel f s = (if mounted s then s\<lparr>panel := f (panel s)\<rparr> else s)"

text \<open>
  \<^verbatim>\<open>handleExecute\<close> up to its \<^verbatim>\<open>await\<close>: nothing without a selected stock, and else the
  call of \<^verbatim>\<open>onExecuteTrade\<close>, which posts the request at once.
\<close>

definition handleExecute :: "builtins \<Rightarrow> app_state \<Rightarrow> app_state" where
  "handleExecute B s =
     (if \<not> truthy (selectedStock (panel s)) then s
      else (case tradeDetails B (panel s) of
              None \<Rightarrow> s\<lparr>panel := (panel s)\<lparr>executing := True, tradeResult := JNull\<rparr>\<rparr>
            | Some details \<Rightarrow>
                executeTrade details
                  (s\<lparr>panel := (panel s)\<lparr>executing := True, tradeResult := JNull\<rparr>\<rparr>)))"

text \<open>
  \<^verbatim>\<open>handleExecute\<close> after \<^verbatim>\<open>onExecuteTrade\<close> has returned \<open>result\<close>. On success a timer is
  set; \<open>refresh_timer\<close> is what runs when it fires, \<^verbatim>\<open>onRefresh\<close> being
  \<^verbatim>\<open>loadAccountData\<close>.
\<close>

definition handleExecute_resumed :: "jsval \<Rightarrow> app_state \<Rightarrow> app_state" where
  "handleExecute_resumed result s =
     set_panel (\<lambda>p. p\<lparr>tradeResult := result, executing := False\<rparr>) s"

definition refresh_timer :: "app_state \<Rightarrow> app_state" where
  "refresh_timer s =
     loadAccountData (set_panel (\<lambda>p. p\<lparr>selectedStock := JNull, tradeResult := JNull\<rparr>) s)"

text \<open>
  \<^verbatim>\<open>executeTrade\<close> after the reply to its post. On success it calls
  \<^verbatim>\<open>loadAccountData()\<close> and waits for it; otherwise it returns the failure at once.
\<close>

definition executeTrade_settled :: "reply \<Rightarrow> app_state \<Rightarrow> app_state" where
  "executeTrade_settled r s =
     on_reply r
       (\<lambda>d. loadAccountData (s\<lparr>pending_orders := pending_orders s @ [get_opt d ''order'']\<rparr>))
       (\<lambda>d. handleExecute_resumed
               (JObj [(''success'', JBool False), (''error'', get_opt d ''error'')]) s)
       (\<lambda>err. handleExecute_resumed
               (JObj [(''success'', JBool False),
                      (''error'', error_of err ''Failed to execute trade'')]) s)"

definition executeTrade_reloaded :: "reply \<Rightarrow> app_state \<Rightarrow> app_state" where
  "executeTrade_reloaded r s =
     (case pending_orders s of
        [] \<Rightarrow> s
      | order # orders \<Rightarrow>
          handleExecute_resumed (JObj [(''success'', JBool True), (''order'', order)])
            ((loadAccountData_settled r s)\<lparr>pending_orders := orders\<rparr>))"

text \<open>
  What the user and the network can do. A click or an input acts only when its control
  is rendered and enabled; a reply carries what the server sent. Replies and timers
  may arrive at any time: the model does not restrict them to those that are due,
  apart from the two whose handler is suspended in the state (\<open>loading\<close>,
  \<open>pending_orders\<close>). The controls of the panel act whenever the panel itself renders,
  whether or not the components next to it do. Both choices only add behaviours.
\<close>

datatype event =
    Mount
  | AccountReplied reply
  | ConfigReplied reply
  | SymbolsChanged "string list"
  | ClickRunAnalysis
  | AnalyzeReplied reply
  | ClickSendTelegram
  | TelegramReplied reply
  | TelegramTimer
  | SelectStock string
  | SetOrderType string
  | SetLimitPrice string
  | SetCustomQuantity string
  | ClickCancel
  | ClickExecute
  | ExecuteReplied reply
  | TradeAccountReplied reply
  | RefreshTimer

text \<open>The selector and the controls on screen, when the panel is mounted and renders.\<close>

definition on_screen :: "app_state \<Rightarrow> (jsval list \<times> trade_controls option) option" where
  "on_screen s =
     (if mounted s
      then (case TradingPanel (analysisResults s) (panel s) of
              Some (Selector tradable c) \<Rightarrow> Some (tradable, c)
            | _ \<Rightarrow> None)
      else None)"

definition with_controls :: "app_state \<Rightarrow> (trade_controls \<Rightarrow> app_state) \<Rightarrow> app_state" where
  "with_controls s f =
     (case on_screen s of Some (tradable, Some c) \<Rightarrow> f c | _ \<Rightarrow> s)"

definition telegram_button_enabled :: "app_state \<Rightarrow> bool" where
  "telegram_button_enabled s =
     (truthy (analysisResults s) \<and> truthy (get_opt (config s) ''telegram_configured'')
      \<and> telegramStatus s \<noteq> TgSending)"

definition step :: "builtins \<Rightarrow> event \<Rightarrow> app_state \<Rightarrow> app_state" where
  "step B e s =
     (case e of
        Mount \<Rightarrow> loadConfig (loadAccountData s)
      | AccountReplied r \<Rightarrow> loadAccountData_settled r s
      | ConfigReplied r \<Rightarrow> loadConfig_settled r s
      | SymbolsChanged syms \<Rightarrow> s\<lparr>selectedSymbols := syms\<rparr>
      | ClickRunAnalysis \<Rightarrow>
          if loading s then s else if selectedSymbols s = [] then s else runAnalysis s
      | AnalyzeReplied r \<Rightarrow> if loading s then runAnalysis_settled r s else s
      | ClickSendTelegram \<Rightarrow> if telegram_button_enabled s then sendToTelegram s else s
      | TelegramReplied r \<Rightarrow> sendToTelegram_settled r s
      | TelegramTimer \<Rightarrow> s\<lparr>telegramStatus := TgIdle\<rparr>
      | SelectStock v \<Rightarrow>
          (case on_screen s of
             None \<Rightarrow> s
           | Some (tradable, c) \<Rightarrow>
               (case select_onChange tradable v (panel s) of
                  None \<Rightarrow> s
                | Some p \<Rightarrow> s\<lparr>panel := p\<rparr>))
      | SetOrderType v \<Rightarrow> with_controls s (\<lambda>c. s\<lparr>panel := (panel s)\<lparr>orderType := v\<rparr>\<rparr>)
      | SetLimitPrice v \<Rightarrow>
          with_controls s (\<lambda>c.
            if orderType (panel s) = ''limit''
            then s\<lparr>panel := (panel s)\<lparr>limitPrice := v\<rparr>\<rparr> else s)
      | SetCustomQuantity v \<Rightarrow>
          with_controls s (\<lambda>c. s\<lparr>panel := (panel s)\<lparr>customQuantity := v\<rparr>\<rparr>)
      | ClickCancel \<Rightarrow>
          with_controls s (\<lambda>c.
            if cancel_disabled c then s else s\<lparr>panel := cancel_onClick (panel s)\<rparr>)
      | ClickExecute \<Rightarrow>
          with_controls s (\<lambda>c. if execute_disabled c then s else handleExecute B s)
      | ExecuteReplied r \<Rightarrow> executeTrade_settled r s
      | TradeAccountReplied r \<Rightarrow> executeTrade_reloaded r s
      | RefreshTimer \<Rightarrow> refresh_timer s)"

fun run :: "builtins \<Rightarrow> event list \<Rightarrow> app_state \<Rightarrow> app_state" where
  "run B [] s = s"
| "run B (e # es) s = run B es (step B e s)"

definition is_execute_trade :: "request \<Rightarrow> bool" where
  "is_execute_trade r = (case r of POST url body \<Rightarrow> url = ''/execute-trade'' | GET url \<Rightarrow> False)"

text \<open>The requests that handling one event adds to the log.\<close>

definition sent_by :: "builtins \<Rightarrow> event \<Rightarrow> app_state \<Rightarrow> request list" where
  "sent_by B e s = drop (length (sent s)) (sent (step B e s))"

section \<open>An instance of the built-ins\<close>

text \<open>
  The built-ins on plain decimal input, to run the model on examples:
  leading blanks, a sign, digits and, for \<^verbatim>\<open>parseFloat\<close>, a fraction; the rest of the
  string is ignored, and a string without digits gives NaN. Exponents, hexadecimal
  prefixes and the rounding to a double are left out.
\<close>

definition digit_of :: "char \<Rightarrow> nat option" where
  "digit_of c =
     map_of [(CHR ''0'', 0), (CHR ''1'', 1), (CHR ''2'', 2), (CHR ''3'', 3), (CHR ''4'', 4),
             (CHR ''5'', 5), (CHR ''6'', 6), (CHR ''7'', 7), (CHR ''8'', 8), (CHR ''9'', 9)] c"

fun read_digits :: "string \<Rightarrow> nat \<Rightarrow> nat \<times> string" where
  "read_digits [] n = (n, [])"
| "read_digits (c # cs) n =
     (case digit_of c of None \<Rightarrow> (n, c # cs) | Some d \<Rightarrow> read_digits cs (10 * n + d))"

definition read_sign :: "string \<Rightarrow> rat \<times> string" where
  "read_sign s =
     (case s of
        c # cs \<Rightarrow> if c = CHR ''-'' then (- 1, cs) else if c = CHR ''+'' then (1, cs) else (1, s)
      | [] \<Rightarrow> (1, s))"

definition decimal_parseInt :: "jsval \<Rightarrow> jsval" where
  "decimal_parseInt v =
     (case v of
        JStr s \<Rightarrow>
          (let (sign, t) = read_sign (dropWhile (\<lambda>c. c = CHR '' '') s);
               (n, rest) = read_digits t 0
           in if length rest = length t then JNaN else JNum (sign * of_nat n))
      | JNum q \<Rightarrow> JNum (if 0 \<le> q then of_int \<lfloor>q\<rfloor> else of_int \<lceil>q\<rceil>)
      | _ \<Rightarrow> JNaN)"

definition decimal_parseFloat :: "jsval \<Rightarrow> jsval" where
  "decimal_parseFloat v =
     (case v of
        JStr s \<Rightarrow>
          (let (sign, t) = read_sign (dropWhile (\<lambda>c. c = CHR '' '') s);
               (n, rest) = read_digits t 0;
               (m, rest') = (case rest of
                               c # cs \<Rightarrow> if c = CHR ''.'' then read_digits cs 0 else (0, rest)
                             | [] \<Rightarrow> (0, rest));
               k = (if rest' = rest then 0 else length rest - 1 - length rest')
           in if length rest = length t \<and> k = 0 then JNaN
              else JNum (sign * (of_nat n + of_nat m / 10 ^ k)))
      | JNum q \<Rightarrow> JNum q
      | _ \<Rightarrow> JNaN)"

definition decimal_toNumber :: "jsval \<Rightarrow> jsval" where
  "decimal_toNumber v =
     (case v of JStr s \<Rightarrow> if s = [] then JNum 0 else decimal_parseFloat v | _ \<Rightarrow> JNaN)"

definition decimal_builtins :: builtins where
  "decimal_builtins =
     \<lparr>parseInt = decimal_parseInt, parseFloat = decimal_parseFloat,
      toNumber = decimal_toNumber\<rparr>"

section \<open>What is offered for execution\<close>

text \<open>
  The recommendations the panel can offer in a state of the application, and the
  invariant of the selection: a selected stock is one of them, in a mounted panel.
\<close>

definition offered :: "app_state \<Rightarrow> jsval list option" where
  "offered s = tradableRecommendations (get_opt (analysisResults s) ''analysis'')"

definition selection_offered :: "app_state \<Rightarrow> bool" where
  "selection_offered s =
     (if truthy (selectedStock (panel s))
      then mounted s \<and>
           (case offered s of None \<Rightarrow> False | Some t \<Rightarrow> selectedStock (panel s) \<in> set t)
      else True)"

section \<open>Example data\<close>

text \<open>
  A reply of the backend with one BUY and one HOLD recommendation, a session of the user
  up to a filled-in limit order, and the order the Execute click then posts.
\<close>

definition rec_a :: "(string \<times> jsval) list" where
  "rec_a =
     [(''symbol'', JStr ''NVDA''), (''action'', JStr ''BUY''), (''confidence'', JNum (4 / 5)),
      (''position_size'', JNum 10), (''position_value'', JNum 1000),
      (''reasoning'', JArr [JStr ''Bullish regime'']), (''warnings'', JArr [])]"

definition rec_b :: "(string \<times> jsval) list" where
  "rec_b =
     [(''position_size'', JNum 10), (''action'', JStr ''BUY''), (''symbol'', JStr ''NVDA''),
      (''confidence'', JNum (1 / 5)), (''position_value'', JNum 7),
      (''order_type'', JStr ''limit''), (''warnings'', JArr [JStr ''PDT''])]"

definition rec_hold :: "(string \<times> jsval) list" where
  "rec_hold =
     [(''symbol'', JStr ''TSLA''), (''action'', JStr ''HOLD''), (''confidence'', JNum (1 / 2)),
      (''position_size'', JNum 0), (''position_value'', JNum 0)]"

definition example_reply :: jsval where
  "example_reply =
     JObj [(''success'', JBool True),
           (''analysis'',
              JObj [(''buy_recommendations'', JArr [JObj rec_a]),
                    (''sell_recommendations'', JArr []),
                    (''hold_recommendations'', JArr [JObj rec_hold]),
                    (''summary'', JObj [(''buy_signals'', JNum 1), (''sell_signals'', JNum 0),
                                        (''hold_signals'', JNum 1)])])]"

definition example_session :: "event list" where
  "example_session =
     [Mount, ClickRunAnalysis, AnalyzeReplied (Resolved example_reply), SelectStock ''TSLA'',
      SelectStock ''NVDA'', SetOrderType ''limit'', SetLimitPrice ''101.50'']"

definition example_order :: "(string \<times> jsval) list" where
  "example_order =
     [(''symbol'', JStr ''NVDA''), (''action'', JStr ''BUY''), (''quantity'', JNum 10),
      (''order_type'', JStr ''limit''), (''limit_price'', JNum (203 / 2))]"

definition empty_reply :: jsval where
  "empty_reply =
     JObj [(''success'', JBool True),
           (''analysis'',
              JObj [(''buy_recommendations'', JArr []),
                    (''sell_recommendations'', JArr []),
                    (''hold_recommendations'', JArr [JObj rec_hold])])]"

text \<open>
  A reply in the shape the specification gives to the result of \<^verbatim>\<open>analyze\<close>, a mapping
  from symbol to recommendation; and recommendations whose breakdown stores the regime
  under \<^verbatim>\<open>regime\<close>, under \<^verbatim>\<open>regime_switching\<close>, and not at all.
\<close>

definition keyed_reply :: jsval where
  "keyed_reply =
     JObj [(''success'', JBool True),
           (''analysis'',
              JObj [(''recommendations'',
                       JObj [(''NVDA'', JObj rec_a), (''TSLA'', JObj rec_hold)]),
                    (''summary'', JObj [(''buy_signals'', JNum 1), (''sell_signals'', JNum 0),
                                        (''hold_signals'', JNum 1)])])]"

definition breakdown_regime_switching :: jsval where
  "breakdown_regime_switching =
     JObj [(''regime_switching'',
              JObj [(''regime'', JStr ''Bullish''), (''confidence'', JNum (4 / 5))]),
           (''walk_forward'',
              JObj [(''expected_return'', JNum (1 / 50)), (''sharpe_ratio'', JNum (3 / 2))])]"

definition breakdown_regime :: jsval where
  "breakdown_regime =
     JObj [(''regime'', JObj [(''regime'', JStr ''Bullish''), (''confidence'', JNum (4 / 5))]),
           (''walk_forward'',
              JObj [(''expected_return'', JNum (1 / 50)), (''sharpe_ratio'', JNum (3 / 2))])]"

definition breakdown_walk_forward :: jsval where
  "breakdown_walk_forward =
     JObj [(''walk_forward'',
              JObj [(''expected_return'', JNum (1 / 50)), (''sharpe_ratio'', JNum (3 / 2))])]"

definition rec_regime :: jsval where
  "rec_regime =
     JObj [(''symbol'', JStr ''NVDA''), (''action'', JStr ''BUY''), (''confidence'', JNum (4 / 5)),
           (''position_size'', JNum 10), (''position_value'', JNum 1000),
           (''analysis_breakdown'', breakdown_regime)]"

definition rec_regime_switching :: jsval where
  "rec_regime_switching =
     JObj [(''symbol'', JStr ''NVDA''), (''action'', JStr ''BUY''), (''confidence'', JNum (4 / 5)),
           (''position_size'', JNum 10), (''position_value'', JNum 1000),
           (''analysis_breakdown'', breakdown_regime_switching)]"

section \<open>The analysis core, as the specification describes it\<close>

text \<open>
  The backend modules (\<^verbatim>\<open>regime_switching.py\<close>, \<^verbatim>\<open>walk_forward.py\<close>, \<^verbatim>\<open>risk_manager.py\<close>,
  \<^verbatim>\<open>decision_engine.py\<close>) are named in the README but are not among the sources. What
  is proved about them below is modelled from the specification, sections 3, 4 and 7.
  Amounts and ratios are real numbers.
\<close>

datatype core_error =
    InsufficientDataError
  | InsufficientWindowsError
  | DataFetchError
  | ConfigurationError

subsection \<open>WalkForwardOptimizer\<close>

text \<open>
  A window descriptor, as index ranges into the series: the train segment is
  \<open>[train_start, test_start)\<close> and the test segment \<open>[test_start, test_end)\<close>.
\<close>

record window =
  train_start :: nat
  test_start :: nat
  test_end :: nat

text \<open>
  Modelled from the spec: the window partition of \<^verbatim>\<open>WalkForwardOptimizer.evaluate\<close>
  (\<^verbatim>\<open>walk_forward.py\<close> is missing). Windows of \<open>train_days\<close> bars followed by \<open>test_days\<close>
  bars start from the earliest bar and advance by exactly \<open>test_days\<close>; a window that
  does not fit whole into the \<open>n\<close> bars is dropped, and with it all later ones. With
  \<open>test_days = 0\<close> the windows would not advance, and there is none.
\<close>

function windows_from :: "nat \<Rightarrow> nat \<Rightarrow> nat \<Rightarrow> nat \<Rightarrow> window list" where
  "windows_from start n train_days test_days =
     (if test_days = 0 then []
      else if n < start + train_days + test_days then []
      else \<lparr>train_start = start, test_start = start + train_days,
             test_end = start + train_days + test_days\<rparr>
           # windows_from (start + test_days) n train_days test_days)"
  by pat_completeness auto
termination
  by (relation "measure (\<lambda>(start, n, train_days, test_days). n - start)") auto

text \<open>
  Modelled from the spec: \<^verbatim>\<open>evaluate(series, train_days=30, test_days=5)\<close> of the missing
  \<^verbatim>\<open>walk_forward.py\<close>, as far as the windows: the partition is made up front from the
  length of the series, and fewer than 2 complete windows fail with
  \<open>InsufficientWindowsError\<close>. The specification leaves the strategy that is fitted
  and applied on each window open, so the result here is the list of windows.
\<close>

definition evaluate :: "'bar list \<Rightarrow> nat \<Rightarrow> nat \<Rightarrow> core_error + window list" where
  "evaluate series train_days test_days =
     (let ws = windows_from 0 (length series) train_days test_days
      in if length ws < 2 then Inl InsufficientWindowsError else Inr ws)"

subsection \<open>RiskManager\<close>

datatype trade_action = BUY | SELL | HOLD

record position =
  quantity :: int
  market_value :: real

record account_snapshot =
  equity :: real
  cash :: real
  buying_power :: real
  day_trade_count :: nat
  account_positions :: "string \<rightharpoonup> position"

record risk_assessment =
  position_size :: int
  position_value :: real
  warnings :: "string list"
  blocked :: bool

text \<open>
  Modelled from the spec: the effect of a failed check in the missing \<^verbatim>\<open>risk_manager.py\<close>:
  it appends a warning and sets \<open>blocked\<close>.
\<close>

definition block :: "string \<Rightarrow> risk_assessment \<Rightarrow> risk_assessment" where
  "block warning ra = ra\<lparr>warnings := warnings ra @ [warning], blocked := True\<rparr>"

text \<open>
  Modelled from the spec: check 1 of \<^verbatim>\<open>RiskManager.assess\<close> (\<^verbatim>\<open>risk_manager.py\<close> is
  missing): if \<^verbatim>\<open>account.equity < min_account_balance\<close>, block.
\<close>

definition balance_check :: "account_snapshot \<Rightarrow> real \<Rightarrow> risk_assessment \<Rightarrow> risk_assessment" where
  "balance_check a min_account_balance ra =
     (if equity a < min_account_balance
      then block ''account equity below minimum balance'' ra else ra)"

text \<open>
  Modelled from the spec: check 2 of \<^verbatim>\<open>RiskManager.assess\<close> (\<^verbatim>\<open>risk_manager.py\<close> is
  missing). For BUY,
  \<^verbatim>\<open>position_size = floor(min(max_position_fraction * account.equity, account.buying_power) / last_price)\<close>,
  and a size of 0 blocks with the warning "insufficient buying power". For SELL,
  \<^verbatim>\<open>position_size = min(proposed_quantity, account.positions[symbol].quantity)\<close>, and a
  symbol that is not held blocks. The specification sizes no HOLD: the size stays 0.
\<close>

definition sizing ::
  "account_snapshot \<Rightarrow> string \<Rightarrow> trade_action \<Rightarrow> int \<Rightarrow> real \<Rightarrow> real
     \<Rightarrow> risk_assessment \<Rightarrow> risk_assessment" where
  "sizing a symbol action proposed_quantity last_price max_position_fraction ra =
     (case action of
        BUY \<Rightarrow>
          (let n = \<lfloor>min (max_position_fraction * equity a) (buying_power a) / last_price\<rfloor>
           in if n = 0 then block ''insufficient buying power'' (ra\<lparr>position_size := 0\<rparr>)
              else ra\<lparr>position_size := n\<rparr>)
      | SELL \<Rightarrow>
          (case account_positions a symbol of
             None \<Rightarrow> block ''symbol not held'' ra
           | Some pos \<Rightarrow> ra\<lparr>position_size := min proposed_quantity (quantity pos)\<rparr>)
      | HOLD \<Rightarrow> ra)"

text \<open>
  Modelled from the spec: check 3 of \<^verbatim>\<open>RiskManager.assess\<close> (\<^verbatim>\<open>risk_manager.py\<close> is
  missing), for a BUY: the post-trade value of the position (what is held of the symbol
  plus the sized purchase) as a fraction of equity; if it exceeds
  \<open>max_position_fraction\<close> by more than the tolerance, the size is reduced to the
  largest quantity within \<open>max_position_fraction\<close>, and when that is no share at all
  the trade is blocked. A purchase turns cash into stock, so the projected equity is
  the equity of the snapshot.
\<close>

definition concentration ::
  "account_snapshot \<Rightarrow> string \<Rightarrow> trade_action \<Rightarrow> real \<Rightarrow> real \<Rightarrow> real
     \<Rightarrow> risk_assessment \<Rightarrow> risk_assessment" where
  "concentration a symbol action last_price max_position_fraction tolerance ra =
     (case action of
        BUY \<Rightarrow>
          (let held = (case account_positions a symbol of
                         None \<Rightarrow> 0 | Some pos \<Rightarrow> market_value pos);
               post_value = held + of_int (position_size ra) * last_price
           in if max_position_fraction + tolerance < post_value / equity a
              then (let n = \<lfloor>(max_position_fraction * equity a - held) / last_price\<rfloor>
                    in if n \<le> 0
                       then block ''position concentration limit reached''
                              (ra\<lparr>position_size := 0\<rparr>)
                       else ra\<lparr>position_size := n,
                              warnings := warnings ra @ [''position size reduced'']\<rparr>)
              else ra)
      | SELL \<Rightarrow> ra
      | HOLD \<Rightarrow> ra)"

text \<open>
  Modelled from the spec: check 4 of \<^verbatim>\<open>RiskManager.assess\<close> (\<^verbatim>\<open>risk_manager.py\<close> is
  missing): with PDT protection enabled and equity under 25000, a trade that would make
  \<open>day_trade_count\<close> exceed 3 is blocked.
\<close>

definition pdt_check :: "account_snapshot \<Rightarrow> bool \<Rightarrow> risk_assessment \<Rightarrow> risk_assessment" where
  "pdt_check a pdt_protection_enabled ra =
     (if pdt_protection_enabled \<and> equity a < 25000 \<and> 3 < day_trade_count a + 1
      then block ''pattern day trading limit reached'' ra else ra)"

text \<open>
  Modelled from the spec: \<^verbatim>\<open>RiskManager.assess\<close> (\<^verbatim>\<open>risk_manager.py\<close> is missing): the four
  checks in order on the same snapshot, each adding its warning and possibly blocking,
  then \<open>position_value\<close> as size times last price. The tolerance of check 3 is
  "configured", so it is one more parameter.
\<close>

definition assess ::
  "account_snapshot \<Rightarrow> string \<Rightarrow> trade_action \<Rightarrow> int \<Rightarrow> real \<Rightarrow> real \<Rightarrow> real \<Rightarrow> bool \<Rightarrow> real
     \<Rightarrow> risk_assessment" where
  "assess a symbol action proposed_quantity last_price max_position_fraction
      min_account_balance pdt_protection_enabled tolerance =
     (let ra0 = \<lparr>position_size = 0, position_value = 0, warnings = [], blocked = False\<rparr>;
          ra1 = balance_check a min_account_balance ra0;
          ra2 = sizing a symbol action proposed_quantity last_price max_position_fraction ra1;
          ra3 = concentration a symbol action last_price max_position_fraction tolerance ra2;
          ra4 = pdt_check a pdt_protection_enabled ra3
      in ra4\<lparr>position_value := of_int (position_size ra4) * last_price\<rparr>)"

subsection \<open>RegimeClassifier\<close>

datatype regime_label = Bullish | Bearish | Sideways

datatype vote = BullishVote | BearishVote | NeutralVote

record regime_state =
  regime :: regime_label
  regime_confidence :: real

text \<open>
  Modelled from the spec: when a vote agrees with a regime (\<^verbatim>\<open>regime_switching.py\<close> is
  missing): a bullish vote with Bullish, a bearish vote with Bearish, a neutral vote
  with Sideways.
\<close>

definition agrees :: "regime_label \<Rightarrow> vote \<Rightarrow> bool" where
  "agrees r v =
     (case r of
        Bullish \<Rightarrow> v = BullishVote
      | Bearish \<Rightarrow> v = BearishVote
      | Sideways \<Rightarrow> v = NeutralVote)"

text \<open>
  Modelled from the spec: the aggregation of the indicator votes in
  \<^verbatim>\<open>RegimeClassifier.classify\<close> (\<^verbatim>\<open>regime_switching.py\<close> is missing). The indicators and
  their thresholds are not modelled: the votes they cast are the input, with
  \<open>adx_no_trend\<close> for the ADX vote that dominates the others. The regime is the strict
  majority among the votes and Sideways on a tie or under the ADX vote; the confidence
  is the number of votes agreeing with the regime over the number of votes cast. A
  series too short for any vote fails with \<open>InsufficientDataError\<close>.
\<close>

definition classify :: "bool \<Rightarrow> vote list \<Rightarrow> core_error + regime_state" where
  "classify adx_no_trend votes =
     (if votes = [] then Inl InsufficientDataError
      else
        (let bullish = length (filter (agrees Bullish) votes);
             bearish = length (filter (agrees Bearish) votes);
             neutral = length (filter (agrees Sideways) votes);
             r = (if adx_no_trend then Sideways
                  else if bearish < bullish \<and> neutral < bullish then Bullish
                  else if bullish < bearish \<and> neutral < bearish then Bearish
                  else Sideways)
         in Inr \<lparr>regime = r,
                 regime_confidence =
                   real (length (filter (agrees r) votes)) / real (length votes)\<rparr>))"

subsection \<open>DecisionEngine\<close>

text \<open>The aggregate figures of a backtest that the fusion reads.\<close>

record walk_forward_result =
  sharpe_ratio :: real
  win_rate :: real
  expected_return :: real
  max_drawdown :: real

text \<open>
  The configuration values of section 6 that the engine passes on, and the three the
  fusion rule calls for without naming them: the materiality threshold and the two
  weights of the weighted average.
\<close>

record engine_config =
  max_position_fraction :: real
  min_account_balance :: real
  pdt_protection_enabled :: bool
  concentration_tolerance :: real
  materiality_threshold :: real
  regime_weight :: real
  walk_forward_weight :: real

datatype reason =
    RegimeReason regime_label real
  | BacktestReason real real
  | DisagreementReason

record recommendation =
  rec_symbol :: string
  rec_action :: trade_action
  confidence :: real
  rec_position_size :: int
  rec_position_value :: real
  analysis_breakdown :: "(regime_state \<times> walk_forward_result) option"
  reasoning :: "reason list"
  rec_warnings :: "string list"

text \<open>
  Modelled from the spec: the two directions the fusion rule of the missing
  \<^verbatim>\<open>decision_engine.py\<close> compares: Bullish +1, Bearish -1, Sideways 0; and the sign of the
  expected return when its absolute value exceeds the materiality threshold, else 0.
\<close>

definition regime_direction :: "regime_label \<Rightarrow> int" where
  "regime_direction r = (case r of Bullish \<Rightarrow> 1 | Bearish \<Rightarrow> - 1 | Sideways \<Rightarrow> 0)"

definition wf_direction :: "real \<Rightarrow> walk_forward_result \<Rightarrow> int" where
  "wf_direction threshold bt =
     (if threshold < \<bar>expected_return bt\<bar>
      then (if 0 < expected_return bt then 1 else - 1) else 0)"

text \<open>
  Modelled from the spec: the normalized score of the fusion rule (\<^verbatim>\<open>decision_engine.py\<close>
  is missing): Sharpe ratio and win rate, both clipped to [0,1] before averaging.
\<close>

definition clip01 :: "real \<Rightarrow> real" where
  "clip01 x = max 0 (min 1 x)"

definition wf_score :: "walk_forward_result \<Rightarrow> real" where
  "wf_score bt = (clip01 (sharpe_ratio bt) + clip01 (win_rate bt)) / 2"

text \<open>
  Modelled from the spec: the fusion rule of the missing \<^verbatim>\<open>decision_engine.py\<close>. When the
  regime direction and the backtest direction agree and are not 0, and the action is
  not a SELL of a symbol that is not held, the action is BUY or SELL and the confidence
  is the weighted average of the regime's confidence and the normalized score (the
  mean of Sharpe ratio and win rate, each clipped to [0,1]). Otherwise the action is
  HOLD and the confidence is the smaller of the two.
\<close>

definition fuse ::
  "engine_config \<Rightarrow> regime_state \<Rightarrow> walk_forward_result \<Rightarrow> bool \<Rightarrow> trade_action \<times> real" where
  "fuse cfg rs bt is_held =
     (let rd = regime_direction (regime rs);
          wd = wf_direction (materiality_threshold cfg) bt
      in if rd = wd \<and> rd \<noteq> 0 \<and> (rd = 1 \<or> is_held)
         then (if rd = 1 then BUY else SELL,
               (regime_weight cfg * regime_confidence rs + walk_forward_weight cfg * wf_score bt)
                 / (regime_weight cfg + walk_forward_weight cfg))
         else (HOLD, min (regime_confidence rs) (wf_score bt)))"

text \<open>
  Modelled from the spec: the recovery from errors in the missing \<^verbatim>\<open>decision_engine.py\<close>
  (section 7). A series too short for the indicators or for two windows gives a HOLD
  with confidence 0 and a warning; any other error marks the symbol as failed.
\<close>

definition recover :: "string \<Rightarrow> core_error \<Rightarrow> core_error + recommendation" where
  "recover symbol e =
     (case e of
        InsufficientDataError \<Rightarrow>
          Inr \<lparr>rec_symbol = symbol, rec_action = HOLD, confidence = 0, rec_position_size = 0,
               rec_position_value = 0, analysis_breakdown = None, reasoning = [],
               rec_warnings = [''insufficient data'']\<rparr>
      | InsufficientWindowsError \<Rightarrow>
          Inr \<lparr>rec_symbol = symbol, rec_action = HOLD, confidence = 0, rec_position_size = 0,
               rec_position_value = 0, analysis_breakdown = None, reasoning = [],
               rec_warnings = [''insufficient data'']\<rparr>
      | DataFetchError \<Rightarrow> Inl e
      | ConfigurationError \<Rightarrow> Inl e)"

text \<open>
  Modelled from the spec: the pipeline of one symbol in \<^verbatim>\<open>DecisionEngine.analyze\<close>
  (\<^verbatim>\<open>decision_engine.py\<close> is missing), from the results of the classifier and of the
  optimizer: fusion, then the risk assessment of the fused action, where a blocked
  assessment turns the action into HOLD and the size into 0, keeps the breakdown and
  adds its warnings. For a SELL the engine proposes the quantity held.
\<close>

definition analyze_symbol ::
  "engine_config \<Rightarrow> account_snapshot \<Rightarrow> string \<Rightarrow> core_error + regime_state
     \<Rightarrow> core_error + walk_forward_result \<Rightarrow> real \<Rightarrow> core_error + recommendation" where
  "analyze_symbol cfg a symbol classification evaluation last_price =
     (case classification of
        Inl e \<Rightarrow> recover symbol e
      | Inr rs \<Rightarrow>
          (case evaluation of
             Inl e \<Rightarrow> recover symbol e
           | Inr bt \<Rightarrow>
               (let (action, conf) = fuse cfg rs bt (account_positions a symbol \<noteq> None);
                    proposed = (case account_positions a symbol of
                                  None \<Rightarrow> 0 | Some pos \<Rightarrow> quantity pos);
                    ra = assess a symbol action proposed last_price (max_position_fraction cfg)
                           (min_account_balance cfg) (pdt_protection_enabled cfg)
                           (concentration_tolerance cfg);
                    why = [RegimeReason (regime rs) (regime_confidence rs),
                           BacktestReason (expected_return bt) (sharpe_ratio bt)]
                          @ (if action = HOLD then [DisagreementReason] else [])
                in Inr \<lparr>rec_symbol = symbol,
                        rec_action = (if blocked ra then HOLD else action),
                        confidence = conf,
                        rec_position_size = (if blocked ra then 0 else position_size ra),
                        rec_position_value = (if blocked ra then 0 else position_value ra),
                        analysis_breakdown = Some (rs, bt),
                        reasoning = why,
                        rec_warnings = warnings ra\<rparr>)))"

text \<open>
  The account of the sizing scenario, the default configuration with equal weights and
  a materiality threshold of half a percent, and the figures of a good backtest.
\<close>

definition example_account :: account_snapshot where
  "example_account =
     \<lparr>equity = 10000, cash = 10000, buying_power = 10000, day_trade_count = 0,
      account_positions = Map.empty\<rparr>"

definition example_config :: engine_config where
  "example_config =
     \<lparr>max_position_fraction = 1 / 10, min_account_balance = 1000,
      pdt_protection_enabled = True, concentration_tolerance = 0,
      materiality_threshold = 1 / 200, regime_weight = 1 / 2, walk_forward_weight = 1 / 2\<rparr>"

definition example_backtest :: walk_forward_result where
  "example_backtest =
     \<lparr>sharpe_ratio = 3 / 2, win_rate = 1, expected_return = 1 / 50, max_drawdown = - (1 / 20)\<rparr>"

definition example_recommendation :: recommendation where
  "example_recommendation =
     \<lparr>rec_symbol = ''NVDA'', rec_action = BUY, confidence = 7 / 8, rec_position_size = 10,
      rec_position_value = 1000,
      analysis_breakdown =
        Some (\<lparr>regime = Bullish, regime_confidence = 3 / 4\<rparr>, example_backtest),
      reasoning = [RegimeReason Bullish (3 / 4), BacktestReason (1 / 50) (3 / 2)],
      rec_warnings = []\<rparr>"

section \<open>Properties\<close>

subsection \<open>Requests of the event system\<close>

lemmas handler_defs =
  loadAccountData_def loadAccountData_settled_def loadConfig_def loadConfig_settled_def
  runAnalysis_def runAnalysis_settled_def sendToTelegram_def sendToTelegram_settled_def
  executeTrade_def handleExecute_def handleExecute_resumed_def refresh_timer_def
  executeTrade_settled_def executeTrade_reloaded_def set_panel_def axios_get_def
  axios_post_def on_reply_def with_controls_def

lemma sent_step: "sent (step B e s) = sent s @ sent_by B e s"
  unfolding sent_by_def
  by (cases e) (auto simp: step_def handler_defs
      split: option.splits list.splits reply.splits if_splits prod.splits)

lemma sent_by_other:
  "e \<noteq> ClickExecute \<Longrightarrow> filter is_execute_trade (sent_by B e s) = []"
  unfolding sent_by_def
  by (cases e) (auto simp: step_def handler_defs is_execute_trade_def
      split: option.splits list.splits reply.splits if_splits prod.splits)

lemma sent_by_click:
  "length (sent_by B ClickExecute s) \<le> 1"
  unfolding sent_by_def
  by (auto simp: step_def handler_defs
      split: option.splits list.splits reply.splits if_splits prod.splits)

lemma count_step:
  "length (filter is_execute_trade (sent (step B e s)))
     \<le> length (filter is_execute_trade (sent s)) + (if e = ClickExecute then 1 else 0)"
proof (cases "e = ClickExecute")
  case True
  have "length (filter is_execute_trade (sent_by B ClickExecute s)) \<le> 1"
    by (rule le_trans [OF length_filter_le sent_by_click])
  with True show ?thesis
    by (simp add: sent_step)
next
  case False
  then show ?thesis
    by (simp add: sent_step sent_by_other)
qed

lemma count_run:
  "length (filter is_execute_trade (sent (run B es s)))
     \<le> length (filter is_execute_trade (sent s)) + length (filter (\<lambda>e. e = ClickExecute) es)"
proof (induction es arbitrary: s)
  case Nil
  show ?case by simp
next
  case (Cons e es)
  from Cons.IH [of "step B e s"] count_step [of B e s] show ?case
    by (simp split: if_splits)
qed

text \<open>
  C3: trade execution is never triggered by analysis. \<^verbatim>\<open>runAnalysis\<close> issues the one
  request to \<^verbatim>\<open>/analyze\<close> and its continuation issues none; handling an event issues
  a request to \<^verbatim>\<open>/execute-trade\<close> only when the event is the click on the Execute
  button; and along any sequence of events, from any state, the log holds no more
  execute-trade requests than it held before plus one for each such click.
\<close>

theorem execute_trade_only_by_click:
  "sent (runAnalysis s) = sent s @ [POST ''/analyze'' (analyze_body (config s) (selectedSymbols s))]
   \<and> sent (runAnalysis_settled r s) = sent s
   \<and> (filter is_execute_trade (sent_by B e s) = [] \<or> e = ClickExecute)
   \<and> length (filter is_execute_trade (sent (run B es s)))
       \<le> length (filter is_execute_trade (sent s)) + length (filter (\<lambda>e. e = ClickExecute) es)"
proof -
  have a: "sent (runAnalysis s)
             = sent s @ [POST ''/analyze'' (analyze_body (config s) (selectedSymbols s))]"
    by (simp add: runAnalysis_def axios_post_def)
  have b: "sent (runAnalysis_settled r s) = sent s"
    by (simp add: runAnalysis_settled_def on_reply_def split: reply.splits option.splits)
  have c: "filter is_execute_trade (sent_by B e s) = [] \<or> e = ClickExecute"
    using sent_by_other [of e B s] by blast
  from a b c count_run [of B es s] show ?thesis by blast
qed

subsection \<open>The trading panel\<close>

lemma on_screen_offered:
  "on_screen s = Some (t, c) \<Longrightarrow> mounted s \<and> offered s = Some t \<and> t \<noteq> []"
  by (auto simp: on_screen_def offered_def TradingPanel_def
      split: if_splits option.splits panel_view.splits bind_splits)

lemma on_screen_controls:
  "on_screen s = Some (t, Some c) \<Longrightarrow>
     truthy (selectedStock (panel s)) \<and> stock c = selectedStock (panel s)
     \<and> execute_disabled c = execute_button_disabled (panel s)"
  by (auto simp: on_screen_def TradingPanel_def render_controls_def
      split: if_splits option.splits panel_view.splits bind_splits)

lemma sent_by_click_cases:
  assumes "r \<in> set (sent_by B ClickExecute s)"
  shows "\<exists>t c d. on_screen s = Some (t, Some c) \<and> \<not> execute_button_disabled (panel s)
           \<and> tradeDetails B (panel s) = Some d \<and> r = POST ''/execute-trade'' d"
proof (cases "on_screen s")
  case None
  with assms show ?thesis
    by (simp add: sent_by_def step_def with_controls_def)
next
  case (Some tc)
  obtain t c where tc: "tc = (t, c)" by (cases tc)
  show ?thesis
  proof (cases c)
    case None
    with assms Some tc show ?thesis
      by (simp add: sent_by_def step_def with_controls_def)
  next
    case (Some ctl)
    with \<open>on_screen s = Some tc\<close> tc have os: "on_screen s = Some (t, Some ctl)"
      by simp
    from on_screen_controls [OF os]
    have tr: "truthy (selectedStock (panel s))"
      and ed: "execute_disabled ctl = execute_button_disabled (panel s)"
      by simp_all
    from assms os tr ed show ?thesis
      by (auto simp: sent_by_def step_def with_controls_def handleExecute_def
          executeTrade_def axios_post_def split: if_splits option.splits)
  qed
qed

lemma tradeDetails_fields:
  assumes "tradeDetails B p = Some d"
  shows "\<exists>kvs. d = JObj kvs
           \<and> map_of kvs ''symbol'' = Some (get_opt (selectedStock p) ''symbol'')
           \<and> map_of kvs ''action'' = Some (get_opt (selectedStock p) ''action'')
           \<and> map_of kvs ''order_type'' = Some (JStr (orderType p))
           \<and> map_of kvs ''limit_price''
               = (if orderType p = ''limit''
                  then Some (parseFloat B (JStr (limitPrice p))) else None)"
  using assms
  by (auto simp: tradeDetails_def get_opt_def split: bind_splits if_splits)

lemma find_symbol_member:
  "find_symbol t v = Some r \<Longrightarrow> r = JUndefined \<or> r \<in> set t"
  by (induction t) (auto split: bind_splits if_splits)

lemma selection_offered_step:
  assumes "selection_offered s"
  shows "selection_offered (step B e s)"
proof (cases e)
  case (SelectStock v)
  show ?thesis
  proof (cases "on_screen s")
    case None
    with assms SelectStock show ?thesis by (simp add: step_def)
  next
    case (Some tc)
    obtain t c where tc: "tc = (t, c)" by (cases tc)
    from on_screen_offered Some tc have m: "mounted s" and o: "offered s = Some t"
      by simp_all
    show ?thesis
    proof (cases "find_symbol t v")
      case None
      with assms SelectStock Some tc show ?thesis
        by (simp add: step_def select_onChange_def)
    next
      case (Some r)
      from find_symbol_member [OF Some] have "r = JUndefined \<or> r \<in> set t" .
      with SelectStock \<open>on_screen s = Some tc\<close> tc Some m o show ?thesis
        by (auto simp: step_def select_onChange_def selection_offered_def mounted_def
            offered_def)
    qed
  qed
next
  case (AnalyzeReplied r)
  with assms show ?thesis
    by (auto simp: step_def selection_offered_def mounted_def offered_def
        runAnalysis_settled_def on_reply_def split: reply.splits option.splits if_splits)
qed (use assms in \<open>auto simp: step_def selection_offered_def mounted_def offered_def
      handler_defs panel_init_def cancel_onClick_def
      split: option.splits list.splits reply.splits if_splits prod.splits\<close>)

lemmas example_defs = example_session_def example_reply_def rec_a_def rec_hold_def
  app_init_def panel_init_def decimal_builtins_def decimal_parseFloat_def
  decimal_parseInt_def read_sign_def digit_of_def

lemmas eval_defs = step_def handler_defs analyze_body_def lookback_days_def get_opt_def
  js_or_def on_screen_def mounted_def TradingPanel_def tradableRecommendations_def
  render_controls_def is_string_def execute_button_disabled_def select_onChange_def
  tradeDetails_def order_quantity_def cancel_onClick_def telegram_button_enabled_def

lemma example_state:
  "run decimal_builtins example_session app_init =
     app_init\<lparr>analysisResults := example_reply,
       account := JUndefined, riskSummary := JUndefined,
       panel := panel_init\<lparr>selectedStock := JObj rec_a, orderType := ''limit'',
                  limitPrice := ''101.50''\<rparr>,
       sent := [GET ''/account'', GET ''/config'',
                POST ''/analyze''
                  (JObj [(''symbols'', JArr (map JStr (selectedSymbols app_init))),
                         (''lookback_days'', JNum 60)])]\<rparr>"
  by (simp add: example_defs eval_defs)

lemma example_click:
  "sent_by decimal_builtins ClickExecute (run decimal_builtins example_session app_init)
     = [POST ''/execute-trade'' (JObj example_order)]"
  unfolding example_state
  by (simp add: sent_by_def example_order_def with_controls_def example_defs eval_defs)

lemma example_panel:
  "panel (run decimal_builtins example_session app_init)
     = panel_init\<lparr>selectedStock := JObj rec_a, orderType := ''limit'',
         limitPrice := ''101.50''\<rparr>"
  unfolding example_state by simp

lemma selection_offered_run:
  "selection_offered s \<Longrightarrow> selection_offered (run B es s)"
  by (induction es arbitrary: s) (simp_all add: selection_offered_step)

lemma selection_offered_init: "selection_offered app_init"
  by (simp add: selection_offered_def app_init_def panel_init_def)

lemma TradingPanel_selector:
  assumes "TradingPanel results p = Some (Selector opts c)"
  shows "opts \<noteq> []
     \<and> (\<exists>b sl. spread (get_opt (get_opt results ''analysis'') ''buy_recommendations'') = Some b
          \<and> spread (get_opt (get_opt results ''analysis'') ''sell_recommendations'') = Some sl
          \<and> opts = b @ sl)
     \<and> (case c of None \<Rightarrow> \<not> truthy (selectedStock p)
         | Some ctl \<Rightarrow> stock ctl = selectedStock p)"
  using assms
  by (auto simp: TradingPanel_def tradableRecommendations_def render_controls_def get_opt_def
      split: if_splits bind_splits option.splits)

lemma TradingPanel_nothing_to_trade:
  assumes "tradableRecommendations (get_opt results ''analysis'') = Some []"
  shows "TradingPanel results p = Some NoTrades \<or> TradingPanel results p = Some RendersNothing"
  using assms by (simp add: TradingPanel_def)

lemma handleExecute_object:
  "sent (handleExecute B (s\<lparr>panel := p\<lparr>selectedStock := JObj f\<rparr>\<rparr>))
     = sent s @
       [POST ''/execute-trade''
          (JObj ([(''symbol'', get_opt (JObj f) ''symbol''),
                  (''action'', get_opt (JObj f) ''action''),
                  (''quantity'',
                     parseInt B (js_or (JStr (customQuantity p)) (get_opt (JObj f) ''position_size''))),
                  (''order_type'', JStr (orderType p))]
                 @ (if orderType p = ''limit''
                    then [(''limit_price'', parseFloat B (JStr (limitPrice p)))] else [])))]"
  by (simp add: handleExecute_def tradeDetails_def order_quantity_def executeTrade_def
      axios_post_def get_opt_def js_or_def)

text \<open>
  C2: the request \<^verbatim>\<open>handleExecute\<close> posts is built from the selected recommendation's
  \<^verbatim>\<open>symbol\<close>, \<^verbatim>\<open>action\<close> and \<^verbatim>\<open>position_size\<close> (the default quantity) and from what the
  user chose (order type, limit price, quantity), and from nothing else: two
  recommendations that agree on the three fields give the same request, whatever their
  other fields hold.
\<close>

theorem trade_request_reads_three_fields:
  assumes "get (JObj f1) ''symbol'' = get (JObj f2) ''symbol''"
    and "get (JObj f1) ''action'' = get (JObj f2) ''action''"
    and "get (JObj f1) ''position_size'' = get (JObj f2) ''position_size''"
  shows "sent (handleExecute B (s\<lparr>panel := p\<lparr>selectedStock := JObj f1\<rparr>\<rparr>))
           = sent (handleExecute B (s\<lparr>panel := p\<lparr>selectedStock := JObj f2\<rparr>\<rparr>))
         \<and> sent (handleExecute B (s\<lparr>panel := p\<lparr>selectedStock := JObj f1\<rparr>\<rparr>))
           = sent s @
             [POST ''/execute-trade''
                (JObj ([(''symbol'', get_opt (JObj f1) ''symbol''),
                        (''action'', get_opt (JObj f1) ''action''),
                        (''quantity'',
                           parseInt B (js_or (JStr (customQuantity p))
                                             (get_opt (JObj f1) ''position_size''))),
                        (''order_type'', JStr (orderType p))]
                       @ (if orderType p = ''limit''
                          then [(''limit_price'', parseFloat B (JStr (limitPrice p)))]
                          else [])))]"
proof -
  have "get_opt (JObj f1) ''symbol'' = get_opt (JObj f2) ''symbol''"
    "get_opt (JObj f1) ''action'' = get_opt (JObj f2) ''action''"
    "get_opt (JObj f1) ''position_size'' = get_opt (JObj f2) ''position_size''"
    using assms unfolding get_opt_def by simp_all
  then show ?thesis
    unfolding handleExecute_object by simp
qed

theorem trade_request_reads_three_fields_witness:
  "get (JObj rec_a) ''symbol'' = get (JObj rec_b) ''symbol''
   \<and> get (JObj rec_a) ''action'' = get (JObj rec_b) ''action''
   \<and> get (JObj rec_a) ''position_size'' = get (JObj rec_b) ''position_size''
   \<and> rec_a \<noteq> rec_b
   \<and> sent (handleExecute decimal_builtins
             (app_init\<lparr>panel := panel_init\<lparr>selectedStock := JObj rec_a\<rparr>\<rparr>))
       = sent (handleExecute decimal_builtins
             (app_init\<lparr>panel := panel_init\<lparr>selectedStock := JObj rec_b\<rparr>\<rparr>))
   \<and> sent (handleExecute decimal_builtins
             (app_init\<lparr>panel := panel_init\<lparr>selectedStock := JObj rec_a\<rparr>\<rparr>))
       = [POST ''/execute-trade''
            (JObj [(''symbol'', JStr ''NVDA''), (''action'', JStr ''BUY''),
                   (''quantity'', JNum 10), (''order_type'', JStr ''market'')])]"
proof -
  have h: "get (JObj rec_a) ''symbol'' = get (JObj rec_b) ''symbol''"
    "get (JObj rec_a) ''action'' = get (JObj rec_b) ''action''"
    "get (JObj rec_a) ''position_size'' = get (JObj rec_b) ''position_size''"
    by (simp_all add: rec_a_def rec_b_def)
  have d: "rec_a \<noteq> rec_b"
    by (simp add: rec_a_def rec_b_def)
  have v: "get_opt (JObj rec_a) ''symbol'' = JStr ''NVDA''"
    "get_opt (JObj rec_a) ''action'' = JStr ''BUY''"
    "parseInt decimal_builtins
       (js_or (JStr (customQuantity panel_init)) (get_opt (JObj rec_a) ''position_size''))
     = JNum 10"
    "orderType panel_init = ''market''"
    by (simp_all add: rec_a_def get_opt_def js_or_def panel_init_def decimal_builtins_def
        decimal_parseInt_def)
  note t = trade_request_reads_three_fields
    [OF h, where B = decimal_builtins and s = app_init and p = panel_init]
  have s0: "sent app_init = []"
    by (simp add: app_init_def)
  from t have c1: "sent (handleExecute decimal_builtins
                     (app_init\<lparr>panel := panel_init\<lparr>selectedStock := JObj rec_a\<rparr>\<rparr>))
                   = sent (handleExecute decimal_builtins
                     (app_init\<lparr>panel := panel_init\<lparr>selectedStock := JObj rec_b\<rparr>\<rparr>))"
    by (rule conjunct1)
  from t [THEN conjunct2] have c2: "sent (handleExecute decimal_builtins
                     (app_init\<lparr>panel := panel_init\<lparr>selectedStock := JObj rec_a\<rparr>\<rparr>))
                   = [POST ''/execute-trade''
                        (JObj [(''symbol'', JStr ''NVDA''), (''action'', JStr ''BUY''),
                               (''quantity'', JNum 10), (''order_type'', JStr ''market'')])]"
    unfolding v s0 by simp
  from h d c1 c2 show ?thesis
    by blast
qed

text \<open>
  C9: in every object \<^verbatim>\<open>handleExecute\<close> builds, \<^verbatim>\<open>limit_price\<close> is a key exactly when the
  order type is \<^verbatim>\<open>'limit'\<close>, and then its value is \<^verbatim>\<open>parseFloat(limitPrice)\<close>; the Execute
  button is disabled when the order type is \<^verbatim>\<open>'limit'\<close> and the limit price is empty; so
  every execute-trade request that an event issues carries a limit price exactly when
  it is a limit order, and then the price entered was not empty.
\<close>

theorem limit_price_iff_limit_order:
  "(tradeDetails B p = Some d \<longrightarrow>
      (\<exists>kvs. d = JObj kvs
         \<and> map_of kvs ''order_type'' = Some (JStr (orderType p))
         \<and> (map_of kvs ''limit_price'' \<noteq> None) = (orderType p = ''limit'')
         \<and> (orderType p = ''limit'' \<longrightarrow>
              map_of kvs ''limit_price'' = Some (parseFloat B (JStr (limitPrice p))))))
   \<and> (orderType q = ''limit'' \<and> limitPrice q = [] \<longrightarrow> execute_button_disabled q)
   \<and> (r \<in> set (sent_by B e s) \<and> is_execute_trade r \<longrightarrow>
        (\<exists>kvs. r = POST ''/execute-trade'' (JObj kvs)
           \<and> map_of kvs ''order_type'' = Some (JStr (orderType (panel s)))
           \<and> map_of kvs ''limit_price''
               = (if orderType (panel s) = ''limit''
                  then Some (parseFloat B (JStr (limitPrice (panel s)))) else None)
           \<and> (orderType (panel s) = ''limit'' \<longrightarrow> limitPrice (panel s) \<noteq> [])))"
proof (intro conjI impI)
  assume "tradeDetails B p = Some d"
  from tradeDetails_fields [OF this]
  show "\<exists>kvs. d = JObj kvs
         \<and> map_of kvs ''order_type'' = Some (JStr (orderType p))
         \<and> (map_of kvs ''limit_price'' \<noteq> None) = (orderType p = ''limit'')
         \<and> (orderType p = ''limit'' \<longrightarrow>
              map_of kvs ''limit_price'' = Some (parseFloat B (JStr (limitPrice p))))"
    by auto
next
  assume "orderType q = ''limit'' \<and> limitPrice q = []"
  then show "execute_button_disabled q"
    by (simp add: execute_button_disabled_def)
next
  assume a: "r \<in> set (sent_by B e s) \<and> is_execute_trade r"
  have e: "e = ClickExecute"
  proof (rule ccontr)
    assume "e \<noteq> ClickExecute"
    from sent_by_other [OF this, of B s] a show False
      by (auto simp: filter_empty_conv)
  qed
  with a have "r \<in> set (sent_by B ClickExecute s)" by simp
  from sent_by_click_cases [OF this] obtain t c d
    where en: "\<not> execute_button_disabled (panel s)"
      and td: "tradeDetails B (panel s) = Some d" and r: "r = POST ''/execute-trade'' d"
    by blast
  from en have "orderType (panel s) = ''limit'' \<longrightarrow> limitPrice (panel s) \<noteq> []"
    by (simp add: execute_button_disabled_def)
  with tradeDetails_fields [OF td] r
  show "\<exists>kvs. r = POST ''/execute-trade'' (JObj kvs)
           \<and> map_of kvs ''order_type'' = Some (JStr (orderType (panel s)))
           \<and> map_of kvs ''limit_price''
               = (if orderType (panel s) = ''limit''
                  then Some (parseFloat B (JStr (limitPrice (panel s)))) else None)
           \<and> (orderType (panel s) = ''limit'' \<longrightarrow> limitPrice (panel s) \<noteq> [])"
    by auto
qed

theorem limit_price_iff_limit_order_witness:
  "tradeDetails decimal_builtins
     (panel_init\<lparr>selectedStock := JObj rec_a, orderType := ''limit'', limitPrice := ''101.50''\<rparr>)
     = Some (JObj example_order)
   \<and> map_of example_order ''limit_price'' = Some (JNum (203 / 2))
   \<and> orderType (panel_init\<lparr>orderType := ''limit''\<rparr>) = ''limit''
   \<and> limitPrice (panel_init\<lparr>orderType := ''limit''\<rparr>) = []
   \<and> execute_button_disabled (panel_init\<lparr>orderType := ''limit''\<rparr>)
   \<and> POST ''/execute-trade'' (JObj example_order)
        \<in> set (sent_by decimal_builtins ClickExecute
                 (run decimal_builtins example_session app_init))
   \<and> is_execute_trade (POST ''/execute-trade'' (JObj example_order))
   \<and> limitPrice (panel (run decimal_builtins example_session app_init)) \<noteq> []"
proof -
  let ?p = "panel_init\<lparr>selectedStock := JObj rec_a, orderType := ''limit'',
              limitPrice := ''101.50''\<rparr>"
  let ?q = "panel_init\<lparr>orderType := ''limit''\<rparr>"
  let ?s = "run decimal_builtins example_session app_init"
  let ?r = "POST ''/execute-trade'' (JObj example_order)"
  note t = limit_price_iff_limit_order
    [where B = decimal_builtins and p = ?p and d = "JObj example_order" and q = ?q
       and r = ?r and e = ClickExecute and s = ?s]
  have h1: "tradeDetails decimal_builtins ?p = Some (JObj example_order)"
    by (simp add: example_order_def example_defs eval_defs)
  have h2: "orderType ?q = ''limit'' \<and> limitPrice ?q = []"
    by (simp add: panel_init_def)
  have h3: "?r \<in> set (sent_by decimal_builtins ClickExecute ?s) \<and> is_execute_trade ?r"
    by (simp add: example_click is_execute_trade_def)
  from t h1 have c1: "map_of example_order ''limit_price''
                        = Some (parseFloat decimal_builtins (JStr (limitPrice ?p)))"
    by auto
  have v: "parseFloat decimal_builtins (JStr (limitPrice ?p)) = JNum (203 / 2)"
    by (simp add: example_defs)
  from t h2 have c2: "execute_button_disabled ?q"
    by blast
  from t h3 have c3: "limitPrice (panel ?s) \<noteq> []"
    by (auto simp: example_panel)
  from h1 h2 h3 c1 c2 c3 v show ?thesis
    by simp
qed

text \<open>
  C10: when the panel shows its selector, the options are the elements of
  \<^verbatim>\<open>buy_recommendations\<close> followed by those of \<^verbatim>\<open>sell_recommendations\<close>, not none, and the
  controls are those of the selected stock; when both lists are empty it shows no
  controls. In every state the application reaches, a selected stock is one of these
  options, and an execute-trade request carries the symbol and the action of one of
  them: recommendations that are only in \<^verbatim>\<open>hold_recommendations\<close> are never submitted,
  and no request has the action HOLD as long as the two lists hold none.
\<close>

theorem only_buy_and_sell_offered:
  "(TradingPanel results p = Some (Selector opts c) \<longrightarrow>
      opts \<noteq> []
      \<and> (\<exists>b sl. spread (get_opt (get_opt results ''analysis'') ''buy_recommendations'') = Some b
           \<and> spread (get_opt (get_opt results ''analysis'') ''sell_recommendations'') = Some sl
           \<and> opts = b @ sl)
      \<and> (case c of None \<Rightarrow> \<not> truthy (selectedStock p)
          | Some ctl \<Rightarrow> stock ctl = selectedStock p))
   \<and> (tradableRecommendations (get_opt results ''analysis'') = Some [] \<longrightarrow>
        TradingPanel results p = Some NoTrades \<or> TradingPanel results p = Some RendersNothing)
   \<and> selection_offered (run B es app_init)
   \<and> (r \<in> set (sent_by B e (run B es app_init)) \<and> is_execute_trade r \<longrightarrow>
        (\<exists>t x kvs. offered (run B es app_init) = Some t \<and> x \<in> set t
           \<and> r = POST ''/execute-trade'' (JObj kvs)
           \<and> map_of kvs ''symbol'' = Some (get_opt x ''symbol'')
           \<and> map_of kvs ''action'' = Some (get_opt x ''action'')
           \<and> ((\<forall>y \<in> set t. get_opt y ''action'' \<noteq> JStr ''HOLD'') \<longrightarrow>
                map_of kvs ''action'' \<noteq> Some (JStr ''HOLD''))))"
proof (intro conjI impI)
  assume "TradingPanel results p = Some (Selector opts c)"
  from TradingPanel_selector [OF this]
  show "opts \<noteq> []"
    and "\<exists>b sl. spread (get_opt (get_opt results ''analysis'') ''buy_recommendations'') = Some b
           \<and> spread (get_opt (get_opt results ''analysis'') ''sell_recommendations'') = Some sl
           \<and> opts = b @ sl"
    and "case c of None \<Rightarrow> \<not> truthy (selectedStock p) | Some ctl \<Rightarrow> stock ctl = selectedStock p"
    by blast+
next
  assume "tradableRecommendations (get_opt results ''analysis'') = Some []"
  then show "TradingPanel results p = Some NoTrades \<or> TradingPanel results p = Some RendersNothing"
    by (rule TradingPanel_nothing_to_trade)
next
  show "selection_offered (run B es app_init)"
    by (rule selection_offered_run [OF selection_offered_init])
next
  let ?s = "run B es app_init"
  assume a: "r \<in> set (sent_by B e ?s) \<and> is_execute_trade r"
  have e: "e = ClickExecute"
  proof (rule ccontr)
    assume "e \<noteq> ClickExecute"
    from sent_by_other [OF this, of B ?s] a show False
      by (auto simp: filter_empty_conv)
  qed
  with a have "r \<in> set (sent_by B ClickExecute ?s)" by simp
  from sent_by_click_cases [OF this] obtain t c d
    where os: "on_screen ?s = Some (t, Some c)"
      and td: "tradeDetails B (panel ?s) = Some d" and r: "r = POST ''/execute-trade'' d"
    by blast
  from on_screen_controls [OF os] have tr: "truthy (selectedStock (panel ?s))"
    by simp
  from on_screen_offered [OF os] have o: "offered ?s = Some t"
    by simp
  have "selection_offered ?s"
    by (rule selection_offered_run [OF selection_offered_init])
  with tr o have m: "selectedStock (panel ?s) \<in> set t"
    by (simp add: selection_offered_def)
  from tradeDetails_fields [OF td] obtain kvs where k: "d = JObj kvs"
    "map_of kvs ''symbol'' = Some (get_opt (selectedStock (panel ?s)) ''symbol'')"
    "map_of kvs ''action'' = Some (get_opt (selectedStock (panel ?s)) ''action'')"
    by blast
  with o m r
  show "\<exists>t x kvs. offered ?s = Some t \<and> x \<in> set t
           \<and> r = POST ''/execute-trade'' (JObj kvs)
           \<and> map_of kvs ''symbol'' = Some (get_opt x ''symbol'')
           \<and> map_of kvs ''action'' = Some (get_opt x ''action'')
           \<and> ((\<forall>y \<in> set t. get_opt y ''action'' \<noteq> JStr ''HOLD'') \<longrightarrow>
                map_of kvs ''action'' \<noteq> Some (JStr ''HOLD''))"
    by auto
qed

theorem only_buy_and_sell_offered_witness:
  "TradingPanel example_reply (panel_init\<lparr>selectedStock := JObj rec_a\<rparr>)
     = Some (Selector [JObj rec_a]
         (Some \<lparr>stock = JObj rec_a, execute_disabled = False, cancel_disabled = False\<rparr>))
   \<and> spread (get_opt (get_opt example_reply ''analysis'') ''buy_recommendations'')
       = Some [JObj rec_a]
   \<and> spread (get_opt (get_opt example_reply ''analysis'') ''sell_recommendations'') = Some []
   \<and> tradableRecommendations (get_opt empty_reply ''analysis'') = Some []
   \<and> TradingPanel empty_reply panel_init = Some NoTrades
   \<and> selectedStock (panel (run decimal_builtins example_session app_init)) = JObj rec_a
   \<and> offered (run decimal_builtins example_session app_init) = Some [JObj rec_a]
   \<and> POST ''/execute-trade'' (JObj example_order)
        \<in> set (sent_by decimal_builtins ClickExecute
                 (run decimal_builtins example_session app_init))
   \<and> is_execute_trade (POST ''/execute-trade'' (JObj example_order))
   \<and> map_of example_order ''action'' \<noteq> Some (JStr ''HOLD'')"
proof -
  let ?p = "panel_init\<lparr>selectedStock := JObj rec_a\<rparr>"
  let ?c = "Some \<lparr>stock = JObj rec_a, execute_disabled = False, cancel_disabled = False\<rparr>"
  let ?s = "run decimal_builtins example_session app_init"
  let ?r = "POST ''/execute-trade'' (JObj example_order)"
  note t1 = only_buy_and_sell_offered
    [where results = example_reply and p = ?p and opts = "[JObj rec_a]" and c = ?c
       and B = decimal_builtins and es = example_session and r = ?r and e = ClickExecute]
  note t2 = only_buy_and_sell_offered
    [where results = empty_reply and p = panel_init and B = decimal_builtins
       and es = example_session]
  have h1: "TradingPanel example_reply ?p = Some (Selector [JObj rec_a] ?c)"
    by (simp add: example_defs eval_defs)
  have h2: "tradableRecommendations (get_opt empty_reply ''analysis'') = Some []"
    by (simp add: empty_reply_def eval_defs)
  have h3: "?r \<in> set (sent_by decimal_builtins ClickExecute ?s) \<and> is_execute_trade ?r"
    by (simp add: example_click is_execute_trade_def)
  have v1: "spread (get_opt (get_opt example_reply ''analysis'') ''buy_recommendations'')
              = Some [JObj rec_a]"
    "spread (get_opt (get_opt example_reply ''analysis'') ''sell_recommendations'') = Some []"
    by (simp_all add: example_reply_def get_opt_def)
  have v2: "TradingPanel empty_reply panel_init \<noteq> Some RendersNothing"
    by (simp add: empty_reply_def TradingPanel_def tradableRecommendations_def get_opt_def)
  have v3: "selectedStock (panel ?s) = JObj rec_a"
    by (simp add: example_panel)
  have v4: "offered ?s = Some [JObj rec_a]"
    unfolding example_state
    by (simp add: offered_def example_reply_def tradableRecommendations_def get_opt_def)
  from t2 h2 v2 have c2: "TradingPanel empty_reply panel_init = Some NoTrades"
    by blast
  have "get_opt (JObj rec_a) ''action'' \<noteq> JStr ''HOLD''"
    by (simp add: rec_a_def get_opt_def)
  with t1 h3 v4 have c3: "map_of example_order ''action'' \<noteq> Some (JStr ''HOLD'')"
    by auto
  from h1 h2 h3 v1 v3 v4 c2 c3 show ?thesis
    by simp
qed

subsection \<open>The shape of the results\<close>

text \<open>
  C6, as the specification states it, is false of what the consumers take: given the
  recommendations as a mapping keyed by symbol, the trading panel and the results view
  both throw.
\<close>

theorem symbol_keyed_mapping_counterexample:
  "TradingPanel keyed_reply panel_init = None
   \<and> AnalysisResults decimal_builtins keyed_reply ''recommendations'' JNull = None"
  by (simp add: keyed_reply_def TradingPanel_def AnalysisResults_def
      tradableRecommendations_def get_opt_def)

text \<open>
  C6, amended: the consumers take the recommendations as three sequences grouped by
  action, under the keys \<^verbatim>\<open>buy_recommendations\<close>, \<^verbatim>\<open>sell_recommendations\<close> and
  \<^verbatim>\<open>hold_recommendations\<close> of \<^verbatim>\<open>analysis\<close>. Given three arrays, the results view lists buy,
  then sell, then hold, and the trading panel offers buy, then sell; whenever the
  results view has a list, it is made of three such sequences; and without the key
  \<^verbatim>\<open>buy_recommendations\<close> both throw.
\<close>

theorem grouped_arrays_consumed:
  "(get analysis ''buy_recommendations'' = Some (JArr b)
      \<and> get analysis ''sell_recommendations'' = Some (JArr s)
      \<and> get analysis ''hold_recommendations'' = Some (JArr h) \<longrightarrow>
        all_recommendations analysis = Some (b @ s @ h)
        \<and> tradableRecommendations analysis = Some (b @ s))
   \<and> (all_recommendations analysis = Some xs \<longrightarrow>
        (\<exists>b s h. spread (get_opt analysis ''buy_recommendations'') = Some b
           \<and> spread (get_opt analysis ''sell_recommendations'') = Some s
           \<and> spread (get_opt analysis ''hold_recommendations'') = Some h
           \<and> xs = b @ s @ h \<and> tradableRecommendations analysis = Some (b @ s)))
   \<and> (get analysis ''buy_recommendations'' = Some JUndefined \<longrightarrow>
        all_recommendations analysis = None \<and> tradableRecommendations analysis = None)"
  by (auto simp: all_recommendations_def tradableRecommendations_def get_opt_def
      split: bind_splits)

theorem grouped_arrays_consumed_witness:
  "get (get_opt example_reply ''analysis'') ''buy_recommendations'' = Some (JArr [JObj rec_a])
   \<and> get (get_opt example_reply ''analysis'') ''sell_recommendations'' = Some (JArr [])
   \<and> get (get_opt example_reply ''analysis'') ''hold_recommendations''
       = Some (JArr [JObj rec_hold])
   \<and> all_recommendations (get_opt example_reply ''analysis'')
       = Some [JObj rec_a, JObj rec_hold]
   \<and> tradableRecommendations (get_opt example_reply ''analysis'') = Some [JObj rec_a]
   \<and> get (get_opt keyed_reply ''analysis'') ''buy_recommendations'' = Some JUndefined
   \<and> all_recommendations (get_opt keyed_reply ''analysis'') = None"
proof -
  let ?a = "get_opt example_reply ''analysis''"
  let ?k = "get_opt keyed_reply ''analysis''"
  note t = grouped_arrays_consumed
    [where analysis = ?a and b = "[JObj rec_a]" and s = "[]" and h = "[JObj rec_hold]"]
  note u = grouped_arrays_consumed [where analysis = ?k]
  have h1: "get ?a ''buy_recommendations'' = Some (JArr [JObj rec_a])"
    "get ?a ''sell_recommendations'' = Some (JArr [])"
    "get ?a ''hold_recommendations'' = Some (JArr [JObj rec_hold])"
    by (simp_all add: example_reply_def get_opt_def)
  have h2: "get ?k ''buy_recommendations'' = Some JUndefined"
    by (simp add: keyed_reply_def get_opt_def)
  from t h1 have c1: "all_recommendations ?a = Some ([JObj rec_a] @ [] @ [JObj rec_hold])"
    "tradableRecommendations ?a = Some ([JObj rec_a] @ [])"
    by blast+
  from u h2 have c2: "all_recommendations ?k = None"
    by blast
  from h1 h2 c1 c2 show ?thesis
    by simp
qed

text \<open>
  C7, as the specification states it, is false for the regime part: for a recommendation
  whose breakdown stores the regime under \<^verbatim>\<open>regime\<close>, the breakdown shown has the
  backtest line only.
\<close>

theorem regime_key_counterexample:
  "analysis_breakdown_items rec_regime
     = Some [WalkForward (JNum (1 / 50)) (JNum (3 / 2))]"
  by (simp add: rec_regime_def breakdown_regime_def analysis_breakdown_items_def is_number_def)

text \<open>
  C7, amended: the breakdown shown has the regime line exactly when the key
  \<^verbatim>\<open>regime_switching\<close> of \<^verbatim>\<open>analysis_breakdown\<close> is truthy, built from its \<^verbatim>\<open>regime\<close> and
  \<^verbatim>\<open>confidence\<close>, and the backtest line exactly when the key \<^verbatim>\<open>walk_forward\<close> is truthy,
  built from its \<^verbatim>\<open>expected_return\<close> and \<^verbatim>\<open>sharpe_ratio\<close>; and it depends on no other key
  of the breakdown.
\<close>

theorem breakdown_keys:
  "(get rec ''analysis_breakdown'' = Some ab \<and> truthy ab
      \<and> analysis_breakdown_items rec = Some items \<longrightarrow>
        items = (if truthy (get_opt ab ''regime_switching'')
                 then [RegimeAnalysis (get_opt (get_opt ab ''regime_switching'') ''regime'')
                         (get_opt (get_opt ab ''regime_switching'') ''confidence'')]
                 else [])
              @ (if truthy (get_opt ab ''walk_forward'')
                 then [WalkForward (get_opt (get_opt ab ''walk_forward'') ''expected_return'')
                         (get_opt (get_opt ab ''walk_forward'') ''sharpe_ratio'')]
                 else []))
   \<and> (get rec ''analysis_breakdown'' = Some ab \<and> get rec' ''analysis_breakdown'' = Some ab'
      \<and> get ab ''regime_switching'' = get ab' ''regime_switching''
      \<and> get ab ''walk_forward'' = get ab' ''walk_forward'' \<and> truthy ab = truthy ab' \<longrightarrow>
        analysis_breakdown_items rec = analysis_breakdown_items rec')"
proof (intro conjI impI)
  assume "get rec ''analysis_breakdown'' = Some ab \<and> truthy ab
      \<and> analysis_breakdown_items rec = Some items"
  then show "items = (if truthy (get_opt ab ''regime_switching'')
                 then [RegimeAnalysis (get_opt (get_opt ab ''regime_switching'') ''regime'')
                         (get_opt (get_opt ab ''regime_switching'') ''confidence'')]
                 else [])
              @ (if truthy (get_opt ab ''walk_forward'')
                 then [WalkForward (get_opt (get_opt ab ''walk_forward'') ''expected_return'')
                         (get_opt (get_opt ab ''walk_forward'') ''sharpe_ratio'')]
                 else [])"
    by (auto simp: analysis_breakdown_items_def get_opt_def split: bind_splits if_splits)
next
  assume "get rec ''analysis_breakdown'' = Some ab \<and> get rec' ''analysis_breakdown'' = Some ab'
      \<and> get ab ''regime_switching'' = get ab' ''regime_switching''
      \<and> get ab ''walk_forward'' = get ab' ''walk_forward'' \<and> truthy ab = truthy ab'"
  then show "analysis_breakdown_items rec = analysis_breakdown_items rec'"
    by (simp add: analysis_breakdown_items_def)
qed

theorem breakdown_keys_witness:
  "get rec_regime_switching ''analysis_breakdown'' = Some breakdown_regime_switching
   \<and> truthy breakdown_regime_switching
   \<and> analysis_breakdown_items rec_regime_switching
       = Some [RegimeAnalysis (JStr ''Bullish'') (JNum (4 / 5)),
               WalkForward (JNum (1 / 50)) (JNum (3 / 2))]
   \<and> get rec_regime ''analysis_breakdown'' = Some breakdown_regime
   \<and> get (JObj [(''analysis_breakdown'', breakdown_walk_forward)]) ''analysis_breakdown''
       = Some breakdown_walk_forward
   \<and> get breakdown_regime ''regime_switching'' = get breakdown_walk_forward ''regime_switching''
   \<and> get breakdown_regime ''walk_forward'' = get breakdown_walk_forward ''walk_forward''
   \<and> analysis_breakdown_items rec_regime
       = analysis_breakdown_items (JObj [(''analysis_breakdown'', breakdown_walk_forward)])"
proof -
  let ?items = "[RegimeAnalysis (JStr ''Bullish'') (JNum (4 / 5)),
                 WalkForward (JNum (1 / 50)) (JNum (3 / 2))]"
  let ?r = "JObj [(''analysis_breakdown'', breakdown_walk_forward)]"
  note t = breakdown_keys
    [where rec = rec_regime and ab = breakdown_regime and rec' = ?r
       and ab' = breakdown_walk_forward]
  have h1: "get rec_regime_switching ''analysis_breakdown'' = Some breakdown_regime_switching"
    "truthy breakdown_regime_switching"
    "analysis_breakdown_items rec_regime_switching = Some ?items"
    by (simp_all add: rec_regime_switching_def breakdown_regime_switching_def
        analysis_breakdown_items_def is_number_def)
  have h2: "get rec_regime ''analysis_breakdown'' = Some breakdown_regime"
    "get ?r ''analysis_breakdown'' = Some breakdown_walk_forward"
    "get breakdown_regime ''regime_switching'' = get breakdown_walk_forward ''regime_switching''"
    "get breakdown_regime ''walk_forward'' = get breakdown_walk_forward ''walk_forward''"
    "truthy breakdown_regime = truthy breakdown_walk_forward"
    by (simp_all add: rec_regime_def breakdown_regime_def breakdown_walk_forward_def)
  from t h2 have c: "analysis_breakdown_items rec_regime = analysis_breakdown_items ?r"
    by blast
  from h1 h2 c show ?thesis
    by simp
qed

subsection \<open>The analysis core\<close>

lemma clip01_bounds: "0 \<le> clip01 x \<and> clip01 x \<le> 1"
  by (simp add: clip01_def)

lemma wf_score_bounds: "0 \<le> wf_score bt \<and> wf_score bt \<le> 1"
  using clip01_bounds [of "sharpe_ratio bt"] clip01_bounds [of "win_rate bt"]
  by (simp add: wf_score_def)

lemma weighted_average_bounds:
  fixes a b c s :: real
  assumes "0 \<le> a" and "0 \<le> b" and "0 < a + b"
    and "0 \<le> c" and "c \<le> 1" and "0 \<le> s" and "s \<le> 1"
  shows "0 \<le> (a * c + b * s) / (a + b) \<and> (a * c + b * s) / (a + b) \<le> 1"
proof -
  have lo: "0 \<le> a * c + b * s"
    using assms by simp
  have "a * c \<le> a" and "b * s \<le> b"
    using assms by (simp_all add: mult_left_le)
  then have hi: "a * c + b * s \<le> a + b"
    by simp
  from lo hi assms(3) show ?thesis
    by simp
qed

lemma classify_confidence:
  assumes "classify adx votes = Inr rs"
  shows "0 \<le> regime_confidence rs \<and> regime_confidence rs \<le> 1"
proof -
  from assms have ne: "votes \<noteq> []"
    by (auto simp: classify_def split: if_splits)
  from assms obtain r where
    c: "regime_confidence rs = real (length (filter (agrees r) votes)) / real (length votes)"
    by (auto simp: classify_def Let_def split: if_splits)
  have "length (filter (agrees r) votes) \<le> length votes"
    by (rule length_filter_le)
  then have "real (length (filter (agrees r) votes)) \<le> real (length votes)"
    by simp
  with ne c show ?thesis
    by (simp add: divide_le_eq_1)
qed

lemma fuse_confidence:
  assumes "0 \<le> regime_weight cfg" and "0 \<le> walk_forward_weight cfg"
    and "0 < regime_weight cfg + walk_forward_weight cfg"
    and "0 \<le> regime_confidence rs" and "regime_confidence rs \<le> 1"
  shows "0 \<le> snd (fuse cfg rs bt is_held) \<and> snd (fuse cfg rs bt is_held) \<le> 1"
proof -
  note s = wf_score_bounds [of bt]
  from weighted_average_bounds [OF assms(1-3) assms(4,5)] s
  have w: "0 \<le> (regime_weight cfg * regime_confidence rs + walk_forward_weight cfg * wf_score bt)
                  / (regime_weight cfg + walk_forward_weight cfg)
           \<and> (regime_weight cfg * regime_confidence rs + walk_forward_weight cfg * wf_score bt)
                  / (regime_weight cfg + walk_forward_weight cfg) \<le> 1"
    by blast
  from assms(4,5) s have m: "0 \<le> min (regime_confidence rs) (wf_score bt)
                            \<and> min (regime_confidence rs) (wf_score bt) \<le> 1"
    by (simp add: min_def)
  from w m show ?thesis
    by (simp add: fuse_def Let_def)
qed

lemma recover_confidence:
  "recover symbol e = Inr r \<Longrightarrow> confidence r = 0"
  by (cases e) (auto simp: recover_def)

lemma analyze_symbol_confidence:
  assumes "0 \<le> regime_weight cfg" and "0 \<le> walk_forward_weight cfg"
    and "0 < regime_weight cfg + walk_forward_weight cfg"
    and "analyze_symbol cfg a symbol (classify adx votes) evaluation last_price = Inr r"
  shows "0 \<le> confidence r \<and> confidence r \<le> 1"
proof (cases "classify adx votes")
  case (Inl e)
  with assms(4) have "recover symbol e = Inr r"
    by (simp add: analyze_symbol_def)
  from recover_confidence [OF this] show ?thesis
    by simp
next
  case (Inr rs)
  note rs = this
  from classify_confidence [OF rs]
  have c: "0 \<le> regime_confidence rs" "regime_confidence rs \<le> 1"
    by simp_all
  show ?thesis
  proof (cases evaluation)
    case (Inl e)
    with assms(4) rs have "recover symbol e = Inr r"
      by (simp add: analyze_symbol_def)
    from recover_confidence [OF this] show ?thesis
      by simp
  next
    case (Inr bt)
    with assms(4) rs
    have "confidence r = snd (fuse cfg rs bt (account_positions a symbol \<noteq> None))"
      by (auto simp: analyze_symbol_def Let_def split: prod.splits)
    with fuse_confidence [OF assms(1-3) c] show ?thesis
      by simp
  qed
qed

lemma card_confidence:
  "renderRecommendationCard B expanded rec = Some (Card sy act conf details)
     \<Longrightarrow> get rec ''confidence'' = Some conf"
  by (auto simp: renderRecommendationCard_def split: bind_splits if_splits)

text \<open>
  C1: every recommendation the engine assembles for a symbol has a confidence in [0,1],
  whatever the votes of the indicators, the figures of the backtest, the account and
  the price, for weights of the weighted average that are not negative and not both 0.
  The presentation layer applies no bound of its own: a card carries the \<^verbatim>\<open>confidence\<close> of
  its recommendation as it comes, to be shown as \<^verbatim>\<open>confidence * 100\<close> percent.
\<close>

theorem recommendation_confidence_in_unit_interval:
  "(0 \<le> regime_weight cfg \<and> 0 \<le> walk_forward_weight cfg
      \<and> 0 < regime_weight cfg + walk_forward_weight cfg
      \<and> analyze_symbol cfg a symbol (classify adx votes) evaluation last_price = Inr r \<longrightarrow>
        0 \<le> confidence r \<and> confidence r \<le> 1)
   \<and> (renderRecommendationCard B expanded rec = Some (Card sy act conf details) \<longrightarrow>
        get rec ''confidence'' = Some conf)"
  using analyze_symbol_confidence [of cfg a symbol adx votes evaluation last_price r]
    card_confidence [of B expanded rec sy act conf details]
  by blast

theorem recommendation_confidence_in_unit_interval_witness:
  "0 \<le> regime_weight example_config \<and> 0 \<le> walk_forward_weight example_config
   \<and> 0 < regime_weight example_config + walk_forward_weight example_config
   \<and> analyze_symbol example_config example_account ''NVDA''
         (classify False [BullishVote, BullishVote, BullishVote, NeutralVote])
         (Inr example_backtest) 100 = Inr example_recommendation
   \<and> confidence example_recommendation = 7 / 8
   \<and> 0 \<le> confidence example_recommendation \<and> confidence example_recommendation \<le> 1
   \<and> renderRecommendationCard decimal_builtins JNull (JObj rec_a)
       = Some (Card (JStr ''NVDA'') (JStr ''BUY'') (JNum (4 / 5)) None)
   \<and> get (JObj rec_a) ''confidence'' = Some (JNum (4 / 5))"
proof -
  let ?c = "classify False [BullishVote, BullishVote, BullishVote, NeutralVote]"
  have w: "0 \<le> regime_weight example_config" "0 \<le> walk_forward_weight example_config"
    "0 < regime_weight example_config + walk_forward_weight example_config"
    by (simp_all add: example_config_def)
  have c: "?c = Inr \<lparr>regime = Bullish, regime_confidence = 3 / 4\<rparr>"
    by (simp add: classify_def agrees_def)
  have f: "fuse example_config \<lparr>regime = Bullish, regime_confidence = 3 / 4\<rparr>
             example_backtest False = (BUY, 7 / 8)"
    by (simp add: fuse_def regime_direction_def wf_direction_def wf_score_def clip01_def
        example_config_def example_backtest_def)
  have ra: "assess example_account ''NVDA'' BUY 0 100 (1 / 10) 1000 True 0
              = \<lparr>position_size = 10, position_value = 1000, warnings = [], blocked = False\<rparr>"
    by (simp add: assess_def pdt_check_def concentration_def sizing_def balance_check_def
        example_account_def)
  have g: "max_position_fraction example_config = 1 / 10"
    "min_account_balance example_config = 1000" "pdt_protection_enabled example_config"
    "concentration_tolerance example_config = 0"
    "account_positions example_account ''NVDA'' = None"
    "expected_return example_backtest = 1 / 50" "sharpe_ratio example_backtest = 3 / 2"
    by (simp_all add: example_config_def example_account_def example_backtest_def)
  have r: "analyze_symbol example_config example_account ''NVDA'' ?c (Inr example_backtest) 100
             = Inr example_recommendation"
    unfolding c
    by (simp add: analyze_symbol_def f ra g example_recommendation_def)
  have v: "confidence example_recommendation = 7 / 8"
    by (simp add: example_recommendation_def)
  have k: "renderRecommendationCard decimal_builtins JNull (JObj rec_a)
             = Some (Card (JStr ''NVDA'') (JStr ''BUY'') (JNum (4 / 5)) None)"
    by (simp add: renderRecommendationCard_def rec_a_def strict_eq_def)
  note t = recommendation_confidence_in_unit_interval
    [where cfg = example_config and a = example_account and symbol = "''NVDA''"
       and adx = False and votes = "[BullishVote, BullishVote, BullishVote, NeutralVote]"
       and evaluation = "Inr example_backtest" and last_price = 100
       and r = example_recommendation and B = decimal_builtins and expanded = JNull
       and rec = "JObj rec_a" and sy = "JStr ''NVDA''" and act = "JStr ''BUY''"
       and conf = "JNum (4 / 5)" and details = None]
  from t w r have b: "0 \<le> confidence example_recommendation
                      \<and> confidence example_recommendation \<le> 1"
    by blast
  from t k have q: "get (JObj rec_a) ''confidence'' = Some (JNum (4 / 5))"
    by blast
  from w r v b k q show ?thesis
    by blast
qed

text \<open>
  C4: on a series of 65 bars (and up to 69: the bars after the last complete window are
  dropped) \<^verbatim>\<open>evaluate\<close> with 30 train days and 5 test days gives exactly the 7 windows
  whose test segments are the bars 30 to 64 in steps of 5; on a series of 32 bars (and
  of any length under 40) it fails with \<open>InsufficientWindowsError\<close>.
\<close>

theorem evaluate_windows_scenario:
  "(65 \<le> length series \<and> length series < 70 \<longrightarrow>
      evaluate series 30 5 =
        Inr [\<lparr>train_start = 0, test_start = 30, test_end = 35\<rparr>,
             \<lparr>train_start = 5, test_start = 35, test_end = 40\<rparr>,
             \<lparr>train_start = 10, test_start = 40, test_end = 45\<rparr>,
             \<lparr>train_start = 15, test_start = 45, test_end = 50\<rparr>,
             \<lparr>train_start = 20, test_start = 50, test_end = 55\<rparr>,
             \<lparr>train_start = 25, test_start = 55, test_end = 60\<rparr>,
             \<lparr>train_start = 30, test_start = 60, test_end = 65\<rparr>])
   \<and> (length short < 40 \<longrightarrow> evaluate short 30 5 = Inl InsufficientWindowsError)"
  by (simp add: evaluate_def)

theorem evaluate_windows_scenario_witness:
  "65 \<le> length (replicate 65 (100 :: real)) \<and> length (replicate 65 (100 :: real)) < 70
   \<and> (\<exists>ws. evaluate (replicate 65 (100 :: real)) 30 5 = Inr ws \<and> length ws = 7)
   \<and> length (replicate 32 (100 :: real)) < 40
   \<and> evaluate (replicate 32 (100 :: real)) 30 5 = Inl InsufficientWindowsError"
  using evaluate_windows_scenario
    [where series = "replicate 65 (100 :: real)" and short = "replicate 32 (100 :: real)"]
  by simp

text \<open>
  C5: the sizing check gives a BUY the size
  \<open>\<lfloor>min (max_position_fraction * equity) buying_power / last_price\<rfloor>\<close>. For a BUY at the
  last price 100 with \<open>max_position_fraction\<close> 0.10, on an account with equity 10000 and
  cash 10000 that can spend at least its cash and does not hold the symbol, \<^verbatim>\<open>assess\<close>
  returns the size 10 and the value 1000, whatever the other parameters; with a minimum
  balance of at most 10000 and fewer than 3 day trades (or PDT protection off) the
  assessment is not blocked and has no warning, and otherwise it is blocked.
\<close>

theorem assess_buy_scenario:
  assumes "equity a = 10000" and "cash a = 10000" and "cash a \<le> buying_power a"
    and "account_positions a symbol = None" and "0 \<le> tolerance"
  shows "position_size (sizing acct symbol BUY proposed price fraction ra)
       = \<lfloor>min (fraction * equity acct) (buying_power acct) / price\<rfloor>
     \<and> position_size (assess a symbol BUY proposed 100 (1 / 10) min_balance pdt tolerance) = 10
     \<and> position_value (assess a symbol BUY proposed 100 (1 / 10) min_balance pdt tolerance) = 1000
     \<and> (if min_balance \<le> 10000 \<and> (day_trade_count a < 3 \<or> \<not> pdt)
        then assess a symbol BUY proposed 100 (1 / 10) min_balance pdt tolerance
               = \<lparr>position_size = 10, position_value = 1000, warnings = [], blocked = False\<rparr>
        else blocked (assess a symbol BUY proposed 100 (1 / 10) min_balance pdt tolerance))"
  using assms
  by (auto simp: assess_def pdt_check_def concentration_def sizing_def balance_check_def
      block_def Let_def min_def)

theorem assess_buy_scenario_witness:
  "equity example_account = 10000 \<and> cash example_account = 10000
   \<and> cash example_account \<le> buying_power example_account
   \<and> account_positions example_account ''NVDA'' = None
   \<and> position_size (assess example_account ''NVDA'' BUY 0 100 (1 / 10) 1000 True 0) = 10
   \<and> position_value (assess example_account ''NVDA'' BUY 0 100 (1 / 10) 1000 True 0) = 1000
   \<and> \<not> blocked (assess example_account ''NVDA'' BUY 0 100 (1 / 10) 1000 True 0)"
proof -
  have h: "equity example_account = 10000" "cash example_account = 10000"
    "cash example_account \<le> buying_power example_account"
    "account_positions example_account ''NVDA'' = None" "(0 :: real) \<le> 0"
    by (simp_all add: example_account_def)
  have d: "day_trade_count example_account < 3"
    by (simp add: example_account_def)
  from assess_buy_scenario [OF h, where proposed = 0 and min_balance = 1000 and pdt = True]
    d h
  show ?thesis
    by simp
qed

subsection \<open>The analyze request\<close>

text \<open>
  C8, as the specification states it, is false: a configured value of 0 is a value the
  caller has, and the request carries 60, not 0.
\<close>

theorem lookback_configured_zero_counterexample:
  "get (analyze_body (JObj [(''lookback_days'', JNum 0)]) [''NVDA'']) ''lookback_days''
     \<noteq> get (JObj [(''lookback_days'', JNum 0)]) ''lookback_days''"
  by (simp add: analyze_body_def lookback_days_def get_opt_def js_or_def)

text \<open>
  C8, amended: the request \<^verbatim>\<open>runAnalysis\<close> posts has a \<open>lookback_days\<close> field, and its
  value is the configured value exactly when that value is truthy; when the
  configuration is not loaded, has no such key, or holds a falsy value (0, NaN, the
  empty string, null, false), the value is 60. The field is therefore never falsy.
\<close>

theorem lookback_days_default:
  "sent (runAnalysis s)
     = sent s @ [POST ''/analyze'' (analyze_body (config s) (selectedSymbols s))]
   \<and> get (analyze_body cfg syms) ''lookback_days''
       = Some (if truthy (get_opt cfg ''lookback_days'')
               then get_opt cfg ''lookback_days'' else JNum 60)
   \<and> truthy (lookback_days cfg)
   \<and> lookback_days JNull = JNum 60
   \<and> lookback_days JUndefined = JNum 60
   \<and> lookback_days (JObj []) = JNum 60"
  by (simp add: runAnalysis_def axios_post_def analyze_body_def lookback_days_def get_opt_def
      js_or_def)

end
